theory Spec2Isabelle
  imports Complex_Main
begin

section \<open>Python values used by the trade matcher\<close>

text \<open>
  The matcher of \<^verbatim>\<open>utils/csv_parser.py\<close> iterates the rows of a pandas frame. A row
  of a frame with mixed column types is an object series, so the cells arrive as plain
  Python values: \<^verbatim>\<open>Filled\<close> as an \<^verbatim>\<open>int\<close>, \<^verbatim>\<open>Avg Price\<close> as a \<^verbatim>\<open>float\<close>,
  \<^verbatim>\<open>Filled Time\<close> as a pandas \<^verbatim>\<open>Timestamp\<close> or \<^verbatim>\<open>NaT\<close>.
\<close>

datatype pyexn = ZeroDivisionError | ValueError

text \<open>
  A Python float is idealised as an exact rational, or \<^verbatim>\<open>nan\<close> (the value
  \<^verbatim>\<open>pd.to_numeric(..., errors="coerce")\<close> leaves for a cell it cannot read). Binary
  rounding error and the infinities are outside this model.
\<close>

datatype pyfloat = Fl rat | NaN

fun fadd :: "pyfloat \<Rightarrow> pyfloat \<Rightarrow> pyfloat" where
  "fadd (Fl a) (Fl b) = Fl (a + b)"
| "fadd _ _ = NaN"

fun fsub :: "pyfloat \<Rightarrow> pyfloat \<Rightarrow> pyfloat" where
  "fsub (Fl a) (Fl b) = Fl (a - b)"
| "fsub _ _ = NaN"

fun fmul :: "pyfloat \<Rightarrow> pyfloat \<Rightarrow> pyfloat" where
  "fmul (Fl a) (Fl b) = Fl (a * b)"
| "fmul _ _ = NaN"

text \<open>Python's \<^verbatim>\<open>/\<close> raises on a zero divisor, whatever the dividend; \<^verbatim>\<open>nan\<close> is not zero.\<close>

definition fdiv :: "pyfloat \<Rightarrow> pyfloat \<Rightarrow> pyexn + pyfloat" where
  "fdiv a b =
     (case b of
        NaN \<Rightarrow> Inr NaN
      | Fl d \<Rightarrow>
          if d = 0 then Inl ZeroDivisionError
          else (case a of NaN \<Rightarrow> Inr NaN | Fl n \<Rightarrow> Inr (Fl (n / d))))"

text \<open>An \<^verbatim>\<open>int\<close> operand of a float operation is converted to float first.\<close>

definition of_pyint :: "int \<Rightarrow> pyfloat" where
  "of_pyint n = Fl (of_int n)"

text \<open>
  \<^verbatim>\<open>round(x, 2)\<close> returns the float that stands for the decimal with two places
  nearest to the binary value of \<open>x\<close>. Of the idealised value this is known to the
  cent, except when that value lies exactly halfway between two cents: there the binary
  float, which is stored just above or just below the halfway point, decides
  (\<^verbatim>\<open>round(2.675, 2)\<close> is 2.67). A rounded value is therefore a whole number of cents,
  or a tie \<open>Tie k\<close>, which stands for \<open>k\<close> or \<open>k + 1\<close> cents, or \<^verbatim>\<open>nan\<close>, which
  rounds to itself.
\<close>

datatype cents = Cents int | Tie int | NotANumber

definition py_round2 :: "pyfloat \<Rightarrow> cents" where
  "py_round2 x =
     (case x of
        NaN \<Rightarrow> NotANumber
      | Fl r \<Rightarrow>
          let f = \<lfloor>r * 100\<rfloor>; d = r * 100 - of_int f
          in if d < 1 / 2 then Cents f
             else if 1 / 2 < d then Cents (f + 1)
             else Tie f)"

text \<open>\<^verbatim>\<open>int(x)\<close> on a float drops the fraction, towards zero; here for \<^verbatim>\<open>int(secs / 60)\<close>.\<close>

definition py_int_div60 :: "int \<Rightarrow> int" where
  "py_int_div60 secs = (if 0 \<le> secs then secs div 60 else - ((- secs) div 60))"

subsection \<open>Decimal rendering\<close>

definition digit_char :: "nat \<Rightarrow> char" where
  "digit_char d = char_of (48 + d)"

function str_nat :: "nat \<Rightarrow> string" where
  "str_nat n = (if n < 10 then [digit_char n] else str_nat (n div 10) @ [digit_char (n mod 10)])"
  by pat_completeness auto
termination
  by (relation "measure id") auto

declare str_nat.simps [simp del]

text \<open>\<^verbatim>\<open>%H\<close>, \<^verbatim>\<open>%M\<close>, \<^verbatim>\<open>%S\<close>, \<^verbatim>\<open>%m\<close>, \<^verbatim>\<open>%d\<close> pad to two digits, \<^verbatim>\<open>%Y\<close> to four.\<close>

definition zero_pad :: "nat \<Rightarrow> string \<Rightarrow> string" where
  "zero_pad w s = replicate (w - length s) (CHR ''0'') @ s"

subsection \<open>Timestamps\<close>

text \<open>
  A timezone-aware \<^verbatim>\<open>Timestamp\<close>: the instant in whole seconds since the epoch (what
  \<^verbatim>\<open>-\<close> and \<^verbatim>\<open>>\<close> use; the Webull format has whole seconds) and the wall-clock
  fields in its zone (what \<^verbatim>\<open>strftime\<close> prints).
\<close>

record timestamp =
  instant :: int
  year :: nat
  month :: nat
  day :: nat
  hour :: nat
  minute :: nat
  second :: nat

text \<open>What a time-valued variable of the matcher can hold.\<close>

datatype tval = TNone | NaT | Stamp timestamp

definition isna :: "tval \<Rightarrow> bool" where
  "isna v = (case v of Stamp _ \<Rightarrow> False | _ \<Rightarrow> True)"

definition strftime_clock :: "timestamp \<Rightarrow> string" where
  "strftime_clock t =
     zero_pad 2 (str_nat (hour t)) @ '':'' @ zero_pad 2 (str_nat (minute t)) @ '':'' @
     zero_pad 2 (str_nat (second t)) @ '' EDT''"

definition strftime_date :: "timestamp \<Rightarrow> string" where
  "strftime_date t =
     zero_pad 4 (str_nat (year t)) @ ''-'' @ zero_pad 2 (str_nat (month t)) @ ''-'' @
     zero_pad 2 (str_nat (day t))"

text \<open>\<^verbatim>\<open>(a - b).total_seconds()\<close> for two timestamps.\<close>

definition total_seconds :: "timestamp \<Rightarrow> timestamp \<Rightarrow> int" where
  "total_seconds a b = instant a - instant b"

text \<open>
  \<^verbatim>\<open>==\<close> between the values the matcher compares. A \<^verbatim>\<open>str\<close> and a
  \<^verbatim>\<open>Timestamp\<close> (or \<^verbatim>\<open>NaT\<close>, or \<^verbatim>\<open>None\<close>) are never equal: neither type
  implements the comparison with the other, and Python falls back to identity.
  \<^verbatim>\<open>NaT\<close> is equal to nothing.
\<close>

datatype pyval = PStr string | PTime tval

fun py_eq :: "pyval \<Rightarrow> pyval \<Rightarrow> bool" where
  "py_eq (PStr a) (PStr b) = (a = b)"
| "py_eq (PTime TNone) (PTime TNone) = True"
| "py_eq (PTime (Stamp a)) (PTime (Stamp b)) = (instant a = instant b)"
| "py_eq _ _ = False"

text \<open>\<^verbatim>\<open>column > entry_time\<close>, cell by cell: \<^verbatim>\<open>NaT\<close> compares false.\<close>

definition time_gt :: "tval \<Rightarrow> timestamp \<Rightarrow> bool" where
  "time_gt v e = (case v of Stamp a \<Rightarrow> instant e < instant a | _ \<Rightarrow> False)"

section \<open>Data model\<close>

text \<open>One row of the orders frame, with the columns the matcher reads.\<close>

record order =
  Symbol :: string
  Side :: string
  Filled :: int
  Avg_Price :: pyfloat
  Filled_Time :: tval
  Name :: "string option"

text \<open>The dictionary built for each exit, key by key (\<open>entry_time_str\<close> is the \<^verbatim>\<open>"entry_time"\<close> key).\<close>

record trade =
  date :: string
  symbol :: string
  company_name :: string
  entry_price :: cents
  entry_time_str :: string
  exit_price :: pyfloat
  exit_time :: string
  quantity :: int
  pnl_dollar :: cents
  pnl_percent :: cents
  duration_minutes :: int
  scale_number :: string
  position_type :: string
  entry_reason :: string
  exit_reason :: string
  emotional_state :: string
  market_context :: string
  lessons_learned :: string
  ai_analysis :: string
  trade_grade :: string

text \<open>The lines the matcher prints, as events.\<close>

datatype event =
    EntryMsg string int pyfloat
  | AddMsg string int pyfloat pyfloat
  | DurationWarning string
  | ExitMsg string int pyfloat cents
  | OrderError string pyexn
  | NoOrdersData
  | NoValidOrders string
  | Processing string nat
  | SymbolError string pyexn
  | Matched nat
  | ParseFailure string pyexn

text \<open>The local variables of \<^verbatim>\<open>_match_symbol_trades\<close>, and what it has printed.\<close>

record mstate =
  trades :: "trade list"
  position :: int
  avg_cost :: pyfloat
  entry_time :: tval
  entry_orders :: "order list"
  printed :: "event list"

definition initial_state :: mstate where
  "initial_state =
     \<lparr>trades = [], position = 0, avg_cost = Fl 0, entry_time = TNone, entry_orders = [],
      printed = []\<rparr>"

text \<open>A block of statements either runs to its end or raises, with the variables as they then are.\<close>

datatype 'a outcome = Done 'a | Raised pyexn 'a

section \<open>The matcher\<close>

text \<open>\<^verbatim>\<open>_estimate_total_exits(orders, entry_time)\<close>: \<open>orders\<close> is the symbol's whole frame.\<close>

definition estimate_total_exits :: "order list \<Rightarrow> tval \<Rightarrow> nat" where
  "estimate_total_exits orders et =
     (case et of
        Stamp e \<Rightarrow>
          max (length (filter (\<lambda>r. time_gt (Filled_Time r) e \<and> Side r = ''Sell'') orders)) 1
      | _ \<Rightarrow> 1)"

text \<open>
  \<^verbatim>\<open>len([t for t in trades if t["symbol"] == symbol and t["entry_time"] == entry_time]) + 1\<close>:
  the trade's \<^verbatim>\<open>"entry_time"\<close> is the formatted string, the variable \<^verbatim>\<open>entry_time\<close>
  the timestamp.
\<close>

definition same_entry :: "string \<Rightarrow> tval \<Rightarrow> trade \<Rightarrow> bool" where
  "same_entry ticker et t = (symbol t = ticker \<and> py_eq (PStr (entry_time_str t)) (PTime et))"

definition scale_num_of :: "trade list \<Rightarrow> string \<Rightarrow> tval \<Rightarrow> nat" where
  "scale_num_of ts ticker et = length (filter (same_entry ticker et) ts) + 1"

definition scale_str :: "nat \<Rightarrow> nat \<Rightarrow> string" where
  "scale_str k n = str_nat k @ ''/'' @ str_nat n"

text \<open>\<^verbatim>\<open>prev_trade["scale_number"].split("/")[0] + f"/{total_exits}"\<close>\<close>

definition patch_denominator :: "nat \<Rightarrow> trade \<Rightarrow> trade" where
  "patch_denominator total_exits t =
     t\<lparr>scale_number := takeWhile (\<lambda>c. c \<noteq> CHR ''/'') (scale_number t) @ ''/'' @ str_nat total_exits\<rparr>"

definition update_previous :: "string \<Rightarrow> tval \<Rightarrow> nat \<Rightarrow> trade list \<Rightarrow> trade list" where
  "update_previous ticker et total_exits ts =
     map (\<lambda>t. if same_entry ticker et t \<and> position_type t = ''Scale Out''
              then patch_denominator total_exits t else t) ts"

definition format_time :: "tval \<Rightarrow> string" where
  "format_time v = (case v of Stamp t \<Rightarrow> strftime_clock t | _ \<Rightarrow> ''Unknown'')"

definition format_date :: "tval \<Rightarrow> string" where
  "format_date v = (case v of Stamp t \<Rightarrow> strftime_date t | _ \<Rightarrow> ''Unknown'')"

definition duration_of :: "tval \<Rightarrow> tval \<Rightarrow> int option" where
  "duration_of et ft =
     (case (et, ft) of
        (Stamp e, Stamp f) \<Rightarrow> Some (py_int_div60 (total_seconds f e))
      | _ \<Rightarrow> None)"

text \<open>The body of the \<^verbatim>\<open>try\<close> in the loop over the rows, lines 167 to 315.\<close>

definition buy_order :: "string \<Rightarrow> mstate \<Rightarrow> order \<Rightarrow> mstate outcome" where
  "buy_order ticker s r =
     (if position s = 0 then
        Done (s\<lparr>entry_time := Filled_Time r, avg_cost := Avg_Price r, position := Filled r,
                entry_orders := [r],
                printed := printed s @ [EntryMsg ticker (Filled r) (Avg_Price r)]\<rparr>)
      else
        let total_cost = fadd (fmul (of_pyint (position s)) (avg_cost s))
                              (fmul (of_pyint (Filled r)) (Avg_Price r));
            s1 = s\<lparr>position := position s + Filled r\<rparr>
        in case fdiv total_cost (of_pyint (position s1)) of
             Inl e \<Rightarrow> Raised e s1
           | Inr a \<Rightarrow>
               Done (s1\<lparr>avg_cost := a, entry_orders := entry_orders s1 @ [r],
                        printed := printed s1 @ [AddMsg ticker (Filled r) (Avg_Price r) a]\<rparr>))"

definition sell_order :: "string \<Rightarrow> order list \<Rightarrow> mstate \<Rightarrow> order \<Rightarrow> mstate outcome" where
  "sell_order ticker orders s r =
     (let exit_quantity = min (Filled r) (position s);
          dur = duration_of (entry_time s) (Filled_Time r);
          duration = (case dur of Some d \<Rightarrow> d | None \<Rightarrow> 0);
          s1 = (case dur of Some d \<Rightarrow> s
                | None \<Rightarrow> s\<lparr>printed := printed s @ [DurationWarning ticker]\<rparr>);
          remaining_after_exit = position s - exit_quantity;
          scale_num = scale_num_of (trades s1) ticker (entry_time s1);
          s2 = (if 0 < remaining_after_exit then s1
                else s1\<lparr>trades := update_previous ticker (entry_time s1) scale_num (trades s1)\<rparr>);
          scale_info = (if 0 < remaining_after_exit
                        then scale_str scale_num (estimate_total_exits orders (entry_time s1))
                        else scale_str scale_num scale_num);
          ptype = (if 0 < remaining_after_exit then ''Scale Out''
                   else if 1 < scale_num then ''Final Exit'' else ''Full Exit'');
          diff = fsub (Avg_Price r) (avg_cost s2)
      in case fdiv diff (avg_cost s2) of
           Inl e \<Rightarrow> Raised e s2
         | Inr ratio \<Rightarrow>
             let t = \<lparr>date = format_date (entry_time s2), symbol = ticker,
                      company_name = (case Name r of Some n \<Rightarrow> n | None \<Rightarrow> ticker),
                      entry_price = py_round2 (avg_cost s2),
                      entry_time_str = format_time (entry_time s2),
                      exit_price = Avg_Price r,
                      exit_time = format_time (Filled_Time r),
                      quantity = exit_quantity,
                      pnl_dollar = py_round2 (fmul diff (of_pyint exit_quantity)),
                      pnl_percent = py_round2 (fmul ratio (Fl 100)),
                      duration_minutes = duration,
                      scale_number = scale_info, position_type = ptype,
                      entry_reason = [], exit_reason = [], emotional_state = [],
                      market_context = [], lessons_learned = [], ai_analysis = [],
                      trade_grade = []\<rparr>;
                 s3 = s2\<lparr>trades := trades s2 @ [t],
                         printed := printed s2 @
                           [ExitMsg ticker exit_quantity (Avg_Price r) (pnl_dollar t)],
                         position := position s2 - exit_quantity\<rparr>
             in Done (if position s3 \<le> 0
                      then s3\<lparr>position := 0, avg_cost := Fl 0, entry_time := TNone,
                              entry_orders := []\<rparr>
                      else s3))"

definition process_order :: "string \<Rightarrow> order list \<Rightarrow> mstate \<Rightarrow> order \<Rightarrow> mstate outcome" where
  "process_order ticker orders s r =
     (if Side r = ''Buy'' then buy_order ticker s r
      else if Side r = ''Sell'' \<and> 0 < position s then sell_order ticker orders s r
      else Done s)"

subsection \<open>Control flow\<close>

text \<open>
  \<^verbatim>\<open>try: block except Exception as e: handler\<close>: the handler runs on the variables as
  the block left them, and control continues after the statement.
\<close>

definition try_except :: "'a outcome \<Rightarrow> (pyexn \<Rightarrow> 'a \<Rightarrow> 'a) \<Rightarrow> 'a outcome" where
  "try_except block handler =
     (case block of Done s \<Rightarrow> Done s | Raised e s \<Rightarrow> Done (handler e s))"

text \<open>A \<^verbatim>\<open>for\<close> loop: an exception that leaves the body leaves the loop.\<close>

fun for_each :: "('a \<Rightarrow> 'b \<Rightarrow> 'a outcome) \<Rightarrow> 'a \<Rightarrow> 'b list \<Rightarrow> 'a outcome" where
  "for_each body s [] = Done s"
| "for_each body s (x # xs) =
     (case body s x of Done s' \<Rightarrow> for_each body s' xs | Raised e s' \<Rightarrow> Raised e s')"

definition state_of :: "'a outcome \<Rightarrow> 'a" where
  "state_of out = (case out of Done s \<Rightarrow> s | Raised e s \<Rightarrow> s)"

subsection \<open>One symbol\<close>

text \<open>One iteration of the loop of \<^verbatim>\<open>_match_symbol_trades\<close>, lines 166 to 319.\<close>

definition order_iteration :: "string \<Rightarrow> order list \<Rightarrow> mstate \<Rightarrow> order \<Rightarrow> mstate outcome" where
  "order_iteration ticker orders s r =
     try_except (process_order ticker orders s r)
       (\<lambda>e s'. s'\<lparr>printed := printed s' @ [OrderError ticker e]\<rparr>)"

text \<open>The loop over \<open>rows\<close>, started in \<open>s\<close>; \<open>orders\<close> stays the symbol's whole frame.\<close>

definition match_rows :: "string \<Rightarrow> order list \<Rightarrow> mstate \<Rightarrow> order list \<Rightarrow> mstate outcome" where
  "match_rows ticker orders s rows = for_each (order_iteration ticker orders) s rows"

text \<open>\<^verbatim>\<open>_match_symbol_trades(symbol, orders)\<close>: the trades, and what was printed.\<close>

definition match_symbol_trades :: "string \<Rightarrow> order list \<Rightarrow> pyexn + trade list \<times> event list" where
  "match_symbol_trades ticker orders =
     (case match_rows ticker orders initial_state orders of
        Done s \<Rightarrow> Inr (trades s, printed s)
      | Raised e s \<Rightarrow> Inl e)"

subsection \<open>All symbols\<close>

text \<open>\<^verbatim>\<open>Series.unique()\<close>: the distinct values in order of first appearance.\<close>

fun unique :: "'a list \<Rightarrow> 'a list" where
  "unique [] = []"
| "unique (x # xs) = x # filter (\<lambda>y. y \<noteq> x) (unique xs)"

record parser =
  raw_orders :: "order list option"
  matched_trades :: "trade list"

text \<open>The list \<^verbatim>\<open>trades\<close> of \<^verbatim>\<open>match_trades_with_scaling\<close>, and what it has printed.\<close>

record dstate =
  all_trades :: "trade list"
  all_printed :: "event list"

text \<open>
  The body of the \<^verbatim>\<open>try\<close> in the loop over the symbols, lines 133 to 145. The call
  of line 144 goes through \<^verbatim>\<open>self\<close>: the method it reaches is the parameter
  \<open>match_symbol\<close>, which returns the symbol's trades and what it printed, or raises.
\<close>

definition process_symbol ::
  "(string \<Rightarrow> order list \<Rightarrow> pyexn + trade list \<times> event list) \<Rightarrow>
   order list \<Rightarrow> dstate \<Rightarrow> string \<Rightarrow> dstate outcome" where
  "process_symbol match_symbol raw d sy =
     (let symbol_orders = filter (\<lambda>r. Symbol r = sy) raw;
          symbol_orders = filter (\<lambda>r. \<not> isna (Filled_Time r)) symbol_orders
      in if length symbol_orders = 0
         then Done (d\<lparr>all_printed := all_printed d @ [NoValidOrders sy]\<rparr>)
         else
           let d1 = d\<lparr>all_printed := all_printed d @ [Processing sy (length symbol_orders)]\<rparr>
           in case match_symbol sy symbol_orders of
                Inl e \<Rightarrow> Raised e d1
              | Inr (symbol_trades, out) \<Rightarrow>
                  Done (d1\<lparr>all_trades := all_trades d1 @ symbol_trades,
                           all_printed := all_printed d1 @ out\<rparr>))"

definition symbol_iteration ::
  "(string \<Rightarrow> order list \<Rightarrow> pyexn + trade list \<times> event list) \<Rightarrow>
   order list \<Rightarrow> dstate \<Rightarrow> string \<Rightarrow> dstate outcome" where
  "symbol_iteration match_symbol raw d sy =
     try_except (process_symbol match_symbol raw d sy)
       (\<lambda>e d'. d'\<lparr>all_printed := all_printed d' @ [SymbolError sy e]\<rparr>)"

text \<open>
  The body of \<^verbatim>\<open>match_trades_with_scaling(self)\<close>, lines 124 to 154: the returned
  list, the parser afterwards, and what was printed.
\<close>

definition match_symbols ::
  "(string \<Rightarrow> order list \<Rightarrow> pyexn + trade list \<times> event list) \<Rightarrow>
   parser \<Rightarrow> pyexn + trade list \<times> parser \<times> event list" where
  "match_symbols match_symbol self =
     (case raw_orders self of
        None \<Rightarrow> Inr ([], self, [NoOrdersData])
      | Some raw \<Rightarrow>
          (case for_each (symbol_iteration match_symbol raw) \<lparr>all_trades = [], all_printed = []\<rparr>
                  (unique (map Symbol raw)) of
             Raised e d \<Rightarrow> Inl e
           | Done d \<Rightarrow>
               Inr (all_trades d, self\<lparr>matched_trades := all_trades d\<rparr>,
                    all_printed d @ [Matched (length (all_trades d))])))"

text \<open>\<^verbatim>\<open>match_trades_with_scaling\<close> of the class itself, whose method is the matcher above.\<close>

definition match_trades_with_scaling ::
  "parser \<Rightarrow> pyexn + trade list \<times> parser \<times> event list" where
  "match_trades_with_scaling self = match_symbols match_symbol_trades self"

section \<open>The timestamp normalizer\<close>

text \<open>
  \<^verbatim>\<open>_parse_datetime_robust\<close> is glue around three library calls. A value they return
  is \<^verbatim>\<open>NaT\<close>, a timezone-naive timestamp, or a timestamp aware of a named zone; only
  the wall-clock fields are kept.
\<close>

record civil =
  c_year :: nat
  c_month :: nat
  c_day :: nat
  c_hour :: nat
  c_minute :: nat
  c_second :: nat

datatype pdvalue = PNaT | PNaive civil | PAware civil string

text \<open>
  The library, as parameters: \<^verbatim>\<open>pd.to_datetime(s, format="%m/%d/%Y %H:%M:%S")\<close>,
  \<^verbatim>\<open>pytz.timezone("US/Eastern").localize(dt)\<close> and
  \<^verbatim>\<open>pd.to_datetime(s, errors="coerce")\<close>. Each returns a value or raises.
\<close>

record library =
  to_datetime_format :: "string \<Rightarrow> pyexn + pdvalue"
  localize_eastern :: "pdvalue \<Rightarrow> pyexn + pdvalue"
  to_datetime_coerce :: "string \<Rightarrow> pyexn + pdvalue"

subsection \<open>String methods\<close>

text \<open>
  \<^verbatim>\<open>str.strip()\<close> removes the whitespace at both ends. A character here is a code
  point below 256; the whitespace among them is the space, tab, line feed, vertical tab,
  form feed, carriage return, the four separators 0x1C to 0x1F, the next-line character
  0x85 and the no-break space 0xA0.
\<close>

definition is_space :: "char \<Rightarrow> bool" where
  "is_space c =
     (c \<in> set [CHR '' '', CHR 0x09, CHR 0x0A, CHR 0x0B, CHR 0x0C, CHR 0x0D,
                CHR 0x1C, CHR 0x1D, CHR 0x1E, CHR 0x1F, CHR 0x85, CHR 0xA0])"

definition strip :: "string \<Rightarrow> string" where
  "strip s = rev (dropWhile is_space (rev (dropWhile is_space s)))"

text \<open>\<^verbatim>\<open>sub in s\<close>\<close>

fun contains :: "string \<Rightarrow> string \<Rightarrow> bool" where
  "contains sub [] = (sub = [])"
| "contains sub (c # cs) = (take (length sub) (c # cs) = sub \<or> contains sub cs)"

text \<open>\<^verbatim>\<open>s.replace(old, "")\<close> for a non-empty \<open>old\<close>: every occurrence, left to right.\<close>

function remove_all :: "string \<Rightarrow> string \<Rightarrow> string" where
  "remove_all old [] = []"
| "remove_all old (c # cs) =
     (if old \<noteq> [] \<and> take (length old) (c # cs) = old
      then remove_all old (drop (length old) (c # cs))
      else c # remove_all old cs)"
  by pat_completeness auto
termination
  by (relation "measure (\<lambda>(old, s). length s)") auto

subsection \<open>The loop over the series\<close>

text \<open>The list \<^verbatim>\<open>parsed_times\<close>, and what has been printed.\<close>

record nstate =
  parsed_times :: "pdvalue list"
  n_printed :: "event list"

text \<open>
  The body of the \<^verbatim>\<open>try\<close>, lines 87 to 112, for one element of the series: a string,
  or \<open>None\<close> for an empty cell.
\<close>

definition zone_branch :: "library \<Rightarrow> string \<Rightarrow> string \<Rightarrow> nstate \<Rightarrow> nstate outcome" where
  "zone_branch lib suffix dt_str st =
     (let dt_str_clean = strip (remove_all suffix dt_str)
      in case to_datetime_format lib dt_str_clean of
           Inl e \<Rightarrow> Raised e st
         | Inr dt \<Rightarrow>
             (case localize_eastern lib dt of
                Inl e \<Rightarrow> Raised e st
              | Inr dt' \<Rightarrow> Done (st\<lparr>parsed_times := parsed_times st @ [dt']\<rparr>)))"

definition parse_element :: "library \<Rightarrow> nstate \<Rightarrow> string option \<Rightarrow> nstate outcome" where
  "parse_element lib st cell =
     (case cell of
        None \<Rightarrow> Done (st\<lparr>parsed_times := parsed_times st @ [PNaT]\<rparr>)
      | Some raw \<Rightarrow>
          if raw = [] then Done (st\<lparr>parsed_times := parsed_times st @ [PNaT]\<rparr>)
          else
            let dt_str = strip raw
            in if contains ''EDT'' dt_str then zone_branch lib '' EDT'' dt_str st
               else if contains ''EST'' dt_str then zone_branch lib '' EST'' dt_str st
               else (case to_datetime_coerce lib dt_str of
                       Inl e \<Rightarrow> Raised e st
                     | Inr dt \<Rightarrow> Done (st\<lparr>parsed_times := parsed_times st @ [dt]\<rparr>)))"

definition element_iteration :: "library \<Rightarrow> nstate \<Rightarrow> string option \<Rightarrow> nstate outcome" where
  "element_iteration lib st cell =
     try_except (parse_element lib st cell)
       (\<lambda>e st'. st'\<lparr>n_printed := n_printed st' @
                     [ParseFailure (case cell of Some raw \<Rightarrow> strip raw | None \<Rightarrow> []) e],
                   parsed_times := parsed_times st' @ [PNaT]\<rparr>)"

definition parse_datetime_robust ::
  "library \<Rightarrow> string option list \<Rightarrow> pyexn + pdvalue list \<times> event list" where
  "parse_datetime_robust lib datetime_series =
     (case for_each (element_iteration lib) \<lparr>parsed_times = [], n_printed = []\<rparr> datetime_series of
        Done st \<Rightarrow> Inr (parsed_times st, n_printed st)
      | Raised e st \<Rightarrow> Inl e)"

section \<open>Notions used in the statements\<close>

text \<open>The denominator of a scale number \<^verbatim>\<open>"k/n"\<close>: what follows the first slash.\<close>

definition denominator_of :: "string \<Rightarrow> string" where
  "denominator_of s = tl (dropWhile (\<lambda>c. c \<noteq> CHR ''/'') s)"

text \<open>
  The provisional denominator as the specification words it: the count, at least 1, of the
  Sell fills among the fills \<open>remaining\<close> (those not yet consumed) whose time is after
  the entry time.
\<close>

definition remaining_sells_after :: "order list \<Rightarrow> timestamp \<Rightarrow> nat" where
  "remaining_sells_after remaining e =
     max (length (filter (\<lambda>x. Side x = ''Sell'' \<and> time_gt (Filled_Time x) e) remaining)) 1"

text \<open>
  The duration as the specification words it: the seconds between entry and exit, in
  minutes, rounded to the nearest integer, and never below 0.
\<close>

definition spec_duration_minutes :: "int \<Rightarrow> int" where
  "spec_duration_minutes secs = max 0 (round (rat_of_int secs / 60))"

text \<open>
  A rounded value as the specification reads it: \<open>v\<close> is \<open>x\<close> rounded to 2 decimal
  places when it is a whole number of cents less than half a cent from \<open>x\<close>, or a tie
  exactly at \<open>x\<close>.
\<close>

definition rounded_to_cents :: "rat \<Rightarrow> cents \<Rightarrow> bool" where
  "rounded_to_cents x v =
     (case v of
        Cents k \<Rightarrow> \<bar>of_int k / 100 - x\<bar> < 1 / 200
      | Tie k \<Rightarrow> x = of_int k / 100 + 1 / 200
      | NotANumber \<Rightarrow> False)"

text \<open>
  The profit recomputed from a trade's own recorded fields,
  \<^verbatim>\<open>round((exit_price - entry_price) * quantity, 2)\<close>, when the recorded entry price is
  known to the cent.
\<close>

definition recomputed_pnl_dollar :: "trade \<Rightarrow> cents option" where
  "recomputed_pnl_dollar t =
     (case entry_price t of
        Cents k \<Rightarrow>
          Some (py_round2 (fmul (fsub (exit_price t) (Fl (of_int k / 100))) (of_pyint (quantity t))))
      | Tie k \<Rightarrow> None
      | NotANumber \<Rightarrow> Some NotANumber)"

text \<open>
  The quantity-weighted mean price of a list of fills, as the specification words it:
  the sum of quantity times price over the sum of the quantities.
\<close>

definition value_of :: "pyfloat \<Rightarrow> rat" where
  "value_of x = (case x of Fl r \<Rightarrow> r | NaN \<Rightarrow> 0)"

definition weighted_mean_price :: "order list \<Rightarrow> rat" where
  "weighted_mean_price fills =
     (\<Sum>r\<leftarrow>fills. of_int (Filled r) * value_of (Avg_Price r)) / of_int (\<Sum>r\<leftarrow>fills. Filled r)"

text \<open>
  What \<^verbatim>\<open>match_trades_with_scaling\<close> hands to the matcher for one symbol: the
  symbol's rows with a timestamp. And the trades the matcher has when its loop over them
  ends.
\<close>

definition symbol_rows :: "order list \<Rightarrow> string \<Rightarrow> order list" where
  "symbol_rows raw sy = filter (\<lambda>r. \<not> isna (Filled_Time r)) (filter (\<lambda>r. Symbol r = sy) raw)"

definition symbol_trades_of :: "order list \<Rightarrow> string \<Rightarrow> trade list" where
  "symbol_trades_of raw sy =
     (let rows = filter (\<lambda>r. \<not> isna (Filled_Time r)) (filter (\<lambda>r. Symbol r = sy) raw)
      in trades (state_of (match_rows sy rows initial_state rows)))"

text \<open>
  What one symbol adds to the batch when the per-symbol method is \<open>match_symbol\<close>:
  nothing when it has no row with a timestamp or when the method raises, otherwise the
  trades the method returns.
\<close>

definition symbol_contribution ::
  "(string \<Rightarrow> order list \<Rightarrow> pyexn + trade list \<times> event list) \<Rightarrow>
   order list \<Rightarrow> string \<Rightarrow> trade list" where
  "symbol_contribution match_symbol raw sy =
     (if symbol_rows raw sy = [] then []
      else case match_symbol sy (symbol_rows raw sy) of
             Inl e \<Rightarrow> []
           | Inr (symbol_trades, out) \<Rightarrow> symbol_trades)"

text \<open>
  What the normalizer is to return for one element, in the words of the specification:
  the marker for an empty element; for a string with a zone abbreviation, the strict parse
  of the string without it, localized, or the marker on any failure; otherwise the result
  of the generic parse, or the marker on any failure.
\<close>

definition via_zone :: "library \<Rightarrow> string \<Rightarrow> string \<Rightarrow> pdvalue \<Rightarrow> bool" where
  "via_zone lib suffix s v =
     (case to_datetime_format lib (strip (remove_all suffix s)) of
        Inl e \<Rightarrow> v = PNaT
      | Inr dt \<Rightarrow> (case localize_eastern lib dt of Inl e \<Rightarrow> v = PNaT | Inr w \<Rightarrow> v = w))"

definition normalized :: "library \<Rightarrow> string option \<Rightarrow> pdvalue \<Rightarrow> bool" where
  "normalized lib cell v =
     (case cell of
        None \<Rightarrow> v = PNaT
      | Some raw \<Rightarrow>
          if raw = [] then v = PNaT
          else if contains ''EDT'' (strip raw) then via_zone lib '' EDT'' (strip raw) v
          else if contains ''EST'' (strip raw) then via_zone lib '' EST'' (strip raw) v
          else (case to_datetime_coerce lib (strip raw) of Inl e \<Rightarrow> v = PNaT | Inr w \<Rightarrow> v = w))"

definition has_zone_abbreviation :: "string option \<Rightarrow> bool" where
  "has_zone_abbreviation cell =
     (case cell of
        None \<Rightarrow> False
      | Some raw \<Rightarrow> raw \<noteq> [] \<and> (contains ''EDT'' (strip raw) \<or> contains ''EST'' (strip raw)))"

text \<open>The missing-value marker, or an instant aware of US Eastern.\<close>

definition eastern_or_missing :: "pdvalue \<Rightarrow> bool" where
  "eastern_or_missing v = (case v of PNaT \<Rightarrow> True | PAware c z \<Rightarrow> z = ''US/Eastern'' | PNaive c \<Rightarrow> False)"

section \<open>Example inputs\<close>

text \<open>
  The instant \<open>t\<close> seconds after 08:00:00 Eastern on 2025-09-15 (1757937600), for
  \<open>t\<close> below one hour, and a row for the symbol ACME filled then.
\<close>

definition stamp_at :: "nat \<Rightarrow> timestamp" where
  "stamp_at t =
     \<lparr>instant = 1757937600 + int t, year = 2025, month = 9, day = 15,
      hour = 8, minute = t div 60, second = t mod 60\<rparr>"

definition fill :: "string \<Rightarrow> int \<Rightarrow> pyfloat \<Rightarrow> nat \<Rightarrow> order" where
  "fill side q p t =
     \<lparr>Symbol = ''ACME'', Side = side, Filled = q, Avg_Price = p,
      Filled_Time = Stamp (stamp_at t), Name = None\<rparr>"

text \<open>Example A of the specification: one buy, closed by one sell 19 minutes later.\<close>

definition example_a :: "order list" where
  "example_a = [fill ''Buy'' 1000 (Fl (1183 / 100)) 0, fill ''Sell'' 1000 (Fl (1284 / 100)) 1140]"

text \<open>Example B of the specification: two buys, a partial sell, the closing sell.\<close>

definition example_b :: "order list" where
  "example_b =
     [fill ''Buy'' 500 (Fl 10) 0, fill ''Buy'' 500 (Fl 12) 60,
      fill ''Sell'' 400 (Fl 13) 120, fill ''Sell'' 600 (Fl 14) 180]"

text \<open>The matcher after the two buys of example B: 1000 shares open.\<close>

definition open_1000 :: mstate where
  "open_1000 = state_of (match_rows ''ACME'' example_b initial_state (take 2 example_b))"

text \<open>Example B followed by a later round trip of 100 shares.\<close>

definition example_two_entries :: "order list" where
  "example_two_entries =
     example_b @ [fill ''Buy'' 100 (Fl 10) 240, fill ''Sell'' 100 (Fl 11) 300]"

text \<open>A buy of 10 at 1, a sell of 5, then a buy of 5 at 2.\<close>

definition example_rebuy :: "order list" where
  "example_rebuy = [fill ''Buy'' 10 (Fl 1) 0, fill ''Sell'' 5 (Fl 1) 60, fill ''Buy'' 5 (Fl 2) 120]"

text \<open>One buy of 10 closed by three sells.\<close>

definition example_three_sells :: "order list" where
  "example_three_sells =
     [fill ''Buy'' 10 (Fl 10) 0, fill ''Sell'' 3 (Fl 11) 60, fill ''Sell'' 3 (Fl 11) 120,
      fill ''Sell'' 4 (Fl 11) 180]"

text \<open>The matcher after the buy and the first sell of the three-sell example: 7 shares open.\<close>

definition open_10 :: mstate where
  "open_10 = state_of (match_rows ''ACME'' example_three_sells initial_state (take 2 example_three_sells))"

text \<open>A round trip that lasts 100 seconds.\<close>

definition example_100s :: "order list" where
  "example_100s = [fill ''Buy'' 10 (Fl 10) 0, fill ''Sell'' 10 (Fl 11) 100]"

text \<open>A buy whose price cell could not be read, and a buy at price zero, each followed by a sell.\<close>

definition example_nan :: "order list" where
  "example_nan = [fill ''Buy'' 10 NaN 0, fill ''Sell'' 10 (Fl 5) 60]"

definition example_zero :: "order list" where
  "example_zero = [fill ''Buy'' 10 (Fl 0) 0, fill ''Sell'' 10 (Fl 5) 60]"

text \<open>The matcher after the buy at price zero; a parser holding that example and example B.\<close>

definition open_zero :: mstate where
  "open_zero = state_of (match_rows ''ACME'' example_zero initial_state (take 1 example_zero))"

definition example_parser :: parser where
  "example_parser = \<lparr>raw_orders = Some (example_zero @ example_b), matched_trades = []\<rparr>"

text \<open>The matcher after the buy at a price that could not be read.\<close>

definition open_nan :: mstate where
  "open_nan = state_of (match_rows ''ACME'' example_nan initial_state (take 1 example_nan))"

text \<open>
  A per-symbol method that raises for the symbol FAIL and is the matcher for every other
  symbol, and a parser whose frame holds example A under the symbol FAIL, then example B.
\<close>

definition failing_for_one ::
  "string \<Rightarrow> order list \<Rightarrow> pyexn + trade list \<times> event list" where
  "failing_for_one sy rows =
     (if sy = ''FAIL'' then Inl ValueError else match_symbol_trades sy rows)"

definition two_symbols :: "order list" where
  "two_symbols = map (\<lambda>r. r\<lparr>Symbol := ''FAIL''\<rparr>) example_a @ example_b"

definition two_symbol_parser :: parser where
  "two_symbol_parser = \<lparr>raw_orders = Some two_symbols, matched_trades = []\<rparr>"

text \<open>Buys of 1 at 10.00 and 2 at 10.01, sold together at 11.00.\<close>

definition example_thirds :: "order list" where
  "example_thirds =
     [fill ''Buy'' 1 (Fl 10) 0, fill ''Buy'' 2 (Fl (1001 / 100)) 60, fill ''Sell'' 3 (Fl 11) 120]"

text \<open>The matcher after the two buys of the last example: 3 shares open at 10.00666...\<close>

definition open_thirds :: mstate where
  "open_thirds = state_of (match_rows ''ACME'' example_thirds initial_state (take 2 example_thirds))"

text \<open>
  What the library returns on the strings of the examples: the strict parse reads
  \<^verbatim>\<open>09/15/2025 08:27:26\<close>, the generic parse reads the ISO form of the same moment as
  a timezone-naive timestamp, \<^verbatim>\<open>localize\<close> attaches the zone to a naive timestamp.
  Every other string is taken as unreadable.
\<close>

definition example_moment :: civil where
  "example_moment =
     \<lparr>c_year = 2025, c_month = 9, c_day = 15, c_hour = 8, c_minute = 27, c_second = 26\<rparr>"

definition example_library :: library where
  "example_library =
     \<lparr>to_datetime_format =
        (\<lambda>s. if s = ''09/15/2025 08:27:26'' then Inr (PNaive example_moment) else Inl ValueError),
      localize_eastern =
        (\<lambda>v. case v of PNaive c \<Rightarrow> Inr (PAware c ''US/Eastern'') | _ \<Rightarrow> Inl ValueError),
      to_datetime_coerce =
        (\<lambda>s. if s = ''2025-09-15 08:27:26'' then Inr (PNaive example_moment) else Inr PNaT)\<rparr>"

section \<open>Basic facts\<close>

text \<open>
  A recorded trade holds its entry time as text, so no recorded trade is ever found
  to share the current \<^verbatim>\<open>entry_time\<close>: the count of earlier legs is always 0 and the
  loop that patches earlier denominators patches nothing.
\<close>

lemma same_entry_never: "same_entry ticker et t = False"
  by (simp add: same_entry_def)

lemma update_previous_ident: "update_previous ticker et k ts = ts"
  by (simp add: update_previous_def same_entry_never)

lemma scale_num_of_one: "scale_num_of ts ticker et = 1"
  by (simp add: scale_num_of_def same_entry_never)

lemma order_iteration_Done:
  "order_iteration ticker orders s r = Done (state_of (order_iteration ticker orders s r))"
  by (simp add: order_iteration_def try_except_def state_of_def split: outcome.split)

lemma match_rows_Nil: "match_rows ticker orders s [] = Done s"
  by (simp add: match_rows_def)

lemma match_rows_Cons:
  "match_rows ticker orders s (r # rows) =
     match_rows ticker orders (state_of (order_iteration ticker orders s r)) rows"
proof -
  obtain s' where "order_iteration ticker orders s r = Done s'"
    using order_iteration_Done by blast
  then show ?thesis
    by (simp add: match_rows_def state_of_def)
qed

lemma match_rows_Done:
  "match_rows ticker orders s rows = Done (state_of (match_rows ticker orders s rows))"
proof (induction rows arbitrary: s)
  case Nil
  show ?case by (simp add: match_rows_Nil state_of_def)
next
  case (Cons r rows)
  show ?case
    using Cons.IH [of "state_of (order_iteration ticker orders s r)"]
    by (simp add: match_rows_Cons)
qed

lemma match_rows_append:
  "match_rows ticker orders s (xs @ ys) =
     match_rows ticker orders (state_of (match_rows ticker orders s xs)) ys"
proof (induction xs arbitrary: s)
  case Nil
  show ?case by (simp add: match_rows_Nil state_of_def)
next
  case (Cons x xs)
  show ?case by (simp add: match_rows_Cons Cons.IH)
qed

subsection \<open>One iteration: position, quantities and the trade list\<close>

lemma position_quantity_step:
  "position (state_of (order_iteration ticker orders s r)) +
     sum_list (map quantity (trades (state_of (order_iteration ticker orders s r)))) =
   position s + sum_list (map quantity (trades s)) + (if Side r = ''Buy'' then Filled r else 0)"
  by (auto simp: order_iteration_def try_except_def state_of_def process_order_def buy_order_def
      sell_order_def Let_def update_previous_ident min_def
      split: sum.splits option.splits)

lemma trades_extend_step:
  "\<exists>new. trades (state_of (order_iteration ticker orders s r)) = trades s @ new"
  by (auto simp: order_iteration_def try_except_def state_of_def process_order_def buy_order_def
      sell_order_def Let_def update_previous_ident
      split: sum.splits option.splits)

subsection \<open>The whole loop\<close>

lemma position_quantity_rows:
  "position (state_of (match_rows ticker orders s rows)) +
     sum_list (map quantity (trades (state_of (match_rows ticker orders s rows)))) =
   position s + sum_list (map quantity (trades s)) +
     sum_list (map Filled (filter (\<lambda>r. Side r = ''Buy'') rows))"
proof (induction rows arbitrary: s)
  case Nil
  show ?case by (simp add: match_rows_Nil state_of_def)
next
  case (Cons r rows)
  show ?case
    using Cons.IH [of "state_of (order_iteration ticker orders s r)"]
      position_quantity_step [of ticker orders s r]
    by (simp add: match_rows_Cons)
qed

lemma trades_extend_rows:
  "\<exists>new. trades (state_of (match_rows ticker orders s rows)) = trades s @ new"
proof (induction rows arbitrary: s)
  case Nil
  show ?case by (simp add: match_rows_Nil state_of_def)
next
  case (Cons r rows)
  obtain n1 where a: "trades (state_of (order_iteration ticker orders s r)) = trades s @ n1"
    using trades_extend_step by blast
  obtain n2 where "trades (state_of (match_rows ticker orders (state_of (order_iteration ticker orders s r)) rows))
      = trades (state_of (order_iteration ticker orders s r)) @ n2"
    using Cons.IH by blast
  with a show ?case by (simp add: match_rows_Cons)
qed

subsection \<open>Scale numbers\<close>

lemma digit_char_not_slash: "d < 10 \<Longrightarrow> digit_char d \<noteq> CHR ''/''"
proof -
  assume "d < 10"
  then have "d \<in> {0,1,2,3,4,5,6,7,8,9}" by auto
  then show ?thesis
    by (auto simp: digit_char_def char_of_def)
qed

lemma str_nat_no_slash: "CHR ''/'' \<notin> set (str_nat n)"
proof (induction n rule: str_nat.induct)
  case (1 n)
  show ?case
  proof (cases "n < 10")
    case True
    then show ?thesis
      using digit_char_not_slash [of n] by (subst str_nat.simps) auto
  next
    case False
    then show ?thesis
      using 1 digit_char_not_slash [of "n mod 10"] by (subst str_nat.simps) auto
  qed
qed

lemma denominator_of_scale_str: "denominator_of (scale_str k n) = str_nat n"
proof -
  have "dropWhile (\<lambda>c. c \<noteq> CHR ''/'') (str_nat k @ ''/'' @ str_nat n) = ''/'' @ str_nat n"
    using str_nat_no_slash [of k] by (subst dropWhile_append2) auto
  then show ?thesis
    by (simp add: denominator_of_def scale_str_def)
qed

subsection \<open>The trade a sell emits\<close>

text \<open>
  A Sell against an open position whose average cost is not zero runs to the end of the
  body and appends exactly this trade.
\<close>

lemma sell_emits:
  assumes "Side r = ''Sell''" and "0 < position s" and "avg_cost s \<noteq> Fl 0"
  shows "\<exists>s' t ratio. process_order ticker orders s r = Done s' \<and> trades s' = trades s @ [t] \<and>
    fdiv (fsub (Avg_Price r) (avg_cost s)) (avg_cost s) = Inr ratio \<and>
    t = \<lparr>date = format_date (entry_time s), symbol = ticker,
          company_name = (case Name r of Some n \<Rightarrow> n | None \<Rightarrow> ticker),
          entry_price = py_round2 (avg_cost s),
          entry_time_str = format_time (entry_time s),
          exit_price = Avg_Price r,
          exit_time = format_time (Filled_Time r),
          quantity = min (Filled r) (position s),
          pnl_dollar = py_round2 (fmul (fsub (Avg_Price r) (avg_cost s))
             (of_pyint (min (Filled r) (position s)))),
          pnl_percent = py_round2 (fmul ratio (Fl 100)),
          duration_minutes = (case duration_of (entry_time s) (Filled_Time r) of Some d \<Rightarrow> d | None \<Rightarrow> 0),
          scale_number = (if Filled r < position s
             then scale_str 1 (estimate_total_exits orders (entry_time s)) else scale_str 1 1),
          position_type = (if Filled r < position s then ''Scale Out'' else ''Full Exit''),
          entry_reason = [], exit_reason = [], emotional_state = [],
          market_context = [], lessons_learned = [], ai_analysis = [],
          trade_grade = []\<rparr> \<and>
    printed s' = printed s @
       (case duration_of (entry_time s) (Filled_Time r) of Some d \<Rightarrow> [] | None \<Rightarrow> [DurationWarning ticker]) @
       [ExitMsg ticker (quantity t) (Avg_Price r) (pnl_dollar t)]"
proof -
  obtain ratio where ratio: "fdiv (fsub (Avg_Price r) (avg_cost s)) (avg_cost s) = Inr ratio"
    using assms(3) by (cases "avg_cost s"; cases "fsub (Avg_Price r) (avg_cost s)") (auto simp: fdiv_def)
  show ?thesis
    using assms ratio
    by (cases "duration_of (entry_time s) (Filled_Time r)")
       (auto simp: process_order_def sell_order_def Let_def update_previous_ident scale_num_of_one
          min_def)
qed

subsection \<open>The position stays non-negative\<close>

lemma position_nonneg_step:
  assumes "0 \<le> position s" and "Side r = ''Buy'' \<longrightarrow> 0 \<le> Filled r"
  shows "0 \<le> position (state_of (order_iteration ticker orders s r))"
  using assms
  by (auto simp: order_iteration_def try_except_def state_of_def process_order_def buy_order_def
      sell_order_def Let_def update_previous_ident min_def
      split: sum.splits option.splits)

lemma position_nonneg_rows:
  assumes "0 \<le> position s" and "\<forall>r\<in>set rows. Side r = ''Buy'' \<longrightarrow> 0 \<le> Filled r"
  shows "0 \<le> position (state_of (match_rows ticker orders s rows))"
  using assms
proof (induction rows arbitrary: s)
  case Nil
  then show ?case by (simp add: match_rows_Nil state_of_def)
next
  case (Cons r rows)
  have "0 \<le> position (state_of (order_iteration ticker orders s r))"
    using Cons.prems by (intro position_nonneg_step) auto
  then show ?case
    using Cons.IH Cons.prems by (simp add: match_rows_Cons)
qed

lemma sell_when_flat:
  assumes "Side r = ''Sell''" and "position s = 0"
  shows "process_order ticker orders s r = Done s"
  using assms by (simp add: process_order_def)

lemma sell_when_open:
  assumes "Side r = ''Sell''" and "0 < position s"
  shows "0 \<le> position (state_of (order_iteration ticker orders s r)) \<and>
     (if avg_cost s = Fl 0
      then trades (state_of (order_iteration ticker orders s r)) = trades s \<and>
           position (state_of (order_iteration ticker orders s r)) = position s
      else \<exists>t. trades (state_of (order_iteration ticker orders s r)) = trades s @ [t] \<and>
             quantity t = min (Filled r) (position s) \<and>
             position (state_of (order_iteration ticker orders s r)) =
               position s - min (Filled r) (position s))"
  using assms
  by (auto simp: order_iteration_def try_except_def state_of_def process_order_def
      sell_order_def Let_def update_previous_ident min_def fdiv_def
      split: sum.splits option.splits pyfloat.splits if_splits)

subsection \<open>The average cost\<close>

lemma buy_into_open:
  assumes "Side r = ''Buy''" and "0 < position s" and "0 < Filled r"
    and "avg_cost s = Fl a" and "Avg_Price r = Fl p"
  shows "position (state_of (order_iteration ticker orders s r)) = position s + Filled r \<and>
    avg_cost (state_of (order_iteration ticker orders s r)) =
      Fl ((of_int (position s) * a + of_int (Filled r) * p) / of_int (position s + Filled r))"
  using assms
  by (auto simp: order_iteration_def try_except_def state_of_def process_order_def buy_order_def
      Let_def fdiv_def of_pyint_def split: sum.splits)

lemma buy_from_flat:
  assumes "Side r = ''Buy''" and "position s = 0"
  shows "position (state_of (order_iteration ticker orders s r)) = Filled r \<and>
    avg_cost (state_of (order_iteration ticker orders s r)) = Avg_Price r"
  using assms
  by (auto simp: order_iteration_def try_except_def state_of_def process_order_def buy_order_def)

lemma buys_into_open:
  assumes "0 < position s" and "avg_cost s = Fl a"
    and "\<forall>r\<in>set buys. Side r = ''Buy'' \<and> 0 < Filled r \<and> Avg_Price r \<noteq> NaN"
  shows "position (state_of (match_rows ticker orders s buys)) =
           position s + (\<Sum>r\<leftarrow>buys. Filled r) \<and>
         avg_cost (state_of (match_rows ticker orders s buys)) =
           Fl ((of_int (position s) * a + (\<Sum>r\<leftarrow>buys. of_int (Filled r) * value_of (Avg_Price r))) /
               of_int (position s + (\<Sum>r\<leftarrow>buys. Filled r)))"
  using assms
proof (induction buys arbitrary: s a)
  case Nil
  then show ?case by (simp add: match_rows_Nil state_of_def)
next
  case (Cons r buys)
  let ?s1 = "state_of (order_iteration ticker orders s r)"
  obtain p where p: "Avg_Price r = Fl p"
    using Cons.prems(3) by (cases "Avg_Price r") auto
  have r: "Side r = ''Buy''" "0 < Filled r"
    using Cons.prems(3) by auto
  let ?a1 = "(of_int (position s) * a + of_int (Filled r) * p) / of_int (position s + Filled r)"
  have step: "position ?s1 = position s + Filled r" "avg_cost ?s1 = Fl ?a1"
    using buy_into_open [OF r(1) Cons.prems(1) r(2) Cons.prems(2) p] by auto
  have pos1: "0 < position ?s1"
    using step Cons.prems(1) r(2) by linarith
  have rest: "\<forall>r\<in>set buys. Side r = ''Buy'' \<and> 0 < Filled r \<and> Avg_Price r \<noteq> NaN"
    using Cons.prems(3) by simp
  have nz: "(of_int (position s + Filled r) :: rat) \<noteq> 0"
    using Cons.prems(1) r(2) by simp
  have cancel: "of_int (position s + Filled r) * ?a1 = of_int (position s) * a + of_int (Filled r) * p"
    using nz by simp
  show ?case
    using Cons.IH [OF pos1 step(2) rest] step(1) p cancel
    by (simp add: match_rows_Cons value_of_def add.assoc)
qed

lemma sell_keeps_avg_cost:
  assumes "Side r = ''Sell''"
    and "0 < position (state_of (order_iteration ticker orders s r))"
  shows "avg_cost (state_of (order_iteration ticker orders s r)) = avg_cost s"
  using assms
  by (auto simp: order_iteration_def try_except_def state_of_def process_order_def
      sell_order_def Let_def update_previous_ident
      split: sum.splits option.splits if_splits)

lemma sell_ignored:
  assumes "Side r = ''Sell''" and "position s \<le> 0"
  shows "state_of (order_iteration ticker orders s r) = s"
  using assms
  by (simp add: order_iteration_def try_except_def state_of_def process_order_def)

lemma sells_ignored:
  assumes "\<forall>r\<in>set sells. Side r = ''Sell''" and "position s \<le> 0"
  shows "state_of (match_rows ticker orders s sells) = s"
  using assms
proof (induction sells arbitrary: s)
  case Nil
  show ?case by (simp add: match_rows_Nil state_of_def)
next
  case (Cons r sells)
  then show ?case by (simp add: match_rows_Cons sell_ignored)
qed

lemma sells_keep_avg_cost:
  assumes "\<forall>r\<in>set sells. Side r = ''Sell''"
    and "0 < position (state_of (match_rows ticker orders s sells))"
  shows "avg_cost (state_of (match_rows ticker orders s sells)) = avg_cost s"
  using assms
proof (induction sells arbitrary: s)
  case Nil
  then show ?case by (simp add: match_rows_Nil state_of_def)
next
  case (Cons r sells)
  let ?s1 = "state_of (order_iteration ticker orders s r)"
  have r: "Side r = ''Sell''" and rest: "\<forall>r\<in>set sells. Side r = ''Sell''"
    using Cons.prems(1) by auto
  have final: "0 < position (state_of (match_rows ticker orders ?s1 sells))"
    using Cons.prems(2) by (simp add: match_rows_Cons)
  have "0 < position ?s1"
  proof (rule ccontr)
    assume "\<not> 0 < position ?s1"
    then have "state_of (match_rows ticker orders ?s1 sells) = ?s1"
      using sells_ignored [OF rest] by simp
    with final \<open>\<not> 0 < position ?s1\<close> show False by simp
  qed
  then have "avg_cost ?s1 = avg_cost s"
    using sell_keeps_avg_cost [OF r] by simp
  then show ?case
    using Cons.IH [OF rest final] by (simp add: match_rows_Cons)
qed

lemma sell_at_zero_cost:
  assumes "Side r = ''Sell''" and "0 < position s" and "avg_cost s = Fl 0"
  shows "\<exists>s1. process_order ticker orders s r = Raised ZeroDivisionError s1 \<and>
    trades s1 = trades s \<and> position s1 = position s \<and> avg_cost s1 = avg_cost s \<and>
    entry_time s1 = entry_time s \<and> entry_orders s1 = entry_orders s"
  using assms
  by (cases "duration_of (entry_time s) (Filled_Time r)"; cases "Avg_Price r")
     (auto simp: process_order_def sell_order_def Let_def update_previous_ident fdiv_def)

lemma sell_at_nan_cost:
  assumes "Side r = ''Sell''" and "0 < position s" and "avg_cost s = NaN"
  shows "\<exists>s' t. process_order ticker orders s r = Done s' \<and> trades s' = trades s @ [t] \<and>
    quantity t = min (Filled r) (position s) \<and> exit_price t = Avg_Price r \<and>
    entry_price t = NotANumber \<and> pnl_dollar t = NotANumber \<and> pnl_percent t = NotANumber"
proof -
  have nz: "avg_cost s \<noteq> Fl 0"
    using assms(3) by simp
  have sub: "fsub (Avg_Price r) NaN = NaN"
    by (cases "Avg_Price r") simp_all
  have "fdiv NaN NaN = Inr NaN" "py_round2 NaN = NotANumber"
    "fmul NaN (of_pyint (min (Filled r) (position s))) = NaN" "fmul NaN (Fl 100) = NaN"
    by (simp_all add: fdiv_def py_round2_def)
  then show ?thesis
    using sell_emits [OF assms(1,2) nz, of ticker orders] assms(3) sub by auto
qed

subsection \<open>Exceptions\<close>

lemma raised_keeps_trades:
  assumes "process_order ticker orders s r = Raised e s1"
  shows "trades s1 = trades s"
  using assms
  by (auto simp: process_order_def buy_order_def sell_order_def Let_def update_previous_ident
      split: if_splits sum.splits option.splits)

lemma match_symbol_trades_returns:
  "match_symbol_trades ticker orders =
     Inr (trades (state_of (match_rows ticker orders initial_state orders)),
          printed (state_of (match_rows ticker orders initial_state orders)))"
proof -
  obtain s where s: "match_rows ticker orders initial_state orders = Done s"
    using match_rows_Done by blast
  then have "state_of (match_rows ticker orders initial_state orders) = s"
    by (simp add: state_of_def)
  with s show ?thesis
    by (simp add: match_symbol_trades_def)
qed

lemma symbol_iteration_Done:
  "\<exists>d'. symbol_iteration match_symbol raw d sy = Done d' \<and>
     all_trades d' = all_trades d @ symbol_contribution match_symbol raw sy"
  by (auto simp: symbol_iteration_def try_except_def process_symbol_def Let_def
      symbol_contribution_def symbol_rows_def split: sum.splits)

lemma symbol_iteration_raised:
  assumes "symbol_rows raw sy \<noteq> []" and "match_symbol sy (symbol_rows raw sy) = Inl e"
  shows "symbol_iteration match_symbol raw d sy =
     Done (d\<lparr>all_printed := all_printed d @
        [Processing sy (length (symbol_rows raw sy)), SymbolError sy e]\<rparr>)"
  using assms
  by (simp add: symbol_iteration_def try_except_def process_symbol_def Let_def symbol_rows_def)

lemma symbols_loop_Done:
  "\<exists>d'. for_each (symbol_iteration match_symbol raw) d syms = Done d' \<and>
     all_trades d' = all_trades d @ concat (map (symbol_contribution match_symbol raw) syms)"
proof (induction syms arbitrary: d)
  case Nil
  show ?case by simp
next
  case (Cons sy syms)
  obtain d1 where d1: "symbol_iteration match_symbol raw d sy = Done d1"
    "all_trades d1 = all_trades d @ symbol_contribution match_symbol raw sy"
    using symbol_iteration_Done by blast
  obtain d2 where "for_each (symbol_iteration match_symbol raw) d1 syms = Done d2"
    "all_trades d2 = all_trades d1 @ concat (map (symbol_contribution match_symbol raw) syms)"
    using Cons.IH by blast
  with d1 show ?case by simp
qed

lemma match_symbols_returns:
  "\<exists>self' out. match_symbols match_symbol self =
     Inr (case raw_orders self of
            None \<Rightarrow> []
          | Some raw \<Rightarrow> concat (map (symbol_contribution match_symbol raw) (unique (map Symbol raw))),
          self', out)"
proof (cases "raw_orders self")
  case None
  then show ?thesis by (simp add: match_symbols_def)
next
  case (Some raw)
  obtain d' where "for_each (symbol_iteration match_symbol raw) \<lparr>all_trades = [], all_printed = []\<rparr>
      (unique (map Symbol raw)) = Done d'"
    "all_trades d' = concat (map (symbol_contribution match_symbol raw) (unique (map Symbol raw)))"
    using symbols_loop_Done [of match_symbol raw "\<lparr>all_trades = [], all_printed = []\<rparr>"] by auto
  with Some show ?thesis by (simp add: match_symbols_def)
qed

lemma contribution_of_matcher:
  "symbol_contribution match_symbol_trades raw = symbol_trades_of raw"
  by (rule ext)
     (simp add: symbol_contribution_def symbol_trades_of_def symbol_rows_def Let_def
        match_symbol_trades_returns match_rows_Nil state_of_def initial_state_def)

subsection \<open>Rounding to cents\<close>

lemma py_round2_rounded: "rounded_to_cents x (py_round2 (Fl x))"
proof -
  let ?f = "\<lfloor>x * 100\<rfloor>"
  let ?d = "x * 100 - of_int ?f"
  have lo: "0 \<le> ?d" and hi: "?d < 1"
    by linarith+
  have shift: "\<bar>of_int k / 100 - x\<bar> < 1 / 200 \<longleftrightarrow> \<bar>of_int k - x * 100\<bar> < 1 / 2" for k :: int
    unfolding abs_less_iff by (intro iffI conjI; elim conjE; linarith)
  have cents: "rounded_to_cents x (Cents k)" if "\<bar>of_int k - x * 100\<bar> < 1 / 2" for k
    using that shift [of k] by (simp only: rounded_to_cents_def cents.case)
  show ?thesis
  proof (cases "?d < 1 / 2")
    case True
    then have val: "py_round2 (Fl x) = Cents ?f"
      by (simp add: py_round2_def Let_def)
    have "\<bar>of_int ?f - x * 100\<bar> < 1 / 2"
      using True lo by linarith
    then show ?thesis
      unfolding val by (rule cents)
  next
    case False
    show ?thesis
    proof (cases "1 / 2 < ?d")
      case True
      with False have val: "py_round2 (Fl x) = Cents (?f + 1)"
        by (simp add: py_round2_def Let_def)
      have "\<bar>of_int (?f + 1) - x * 100\<bar> < 1 / 2"
        using True hi by simp
      then show ?thesis
        unfolding val by (rule cents)
    next
      case nothigh: False
      with False have val: "py_round2 (Fl x) = Tie ?f"
        by (simp add: py_round2_def Let_def)
      from False nothigh have "?d = 1 / 2"
        by linarith
      then have "x = of_int ?f / 100 + 1 / 200"
        by linarith
      then show ?thesis
        unfolding val by (simp only: rounded_to_cents_def cents.case)
    qed
  qed
qed

subsection \<open>The timestamp normalizer\<close>

lemma zone_branch_Done:
  "\<exists>st' v. try_except (zone_branch lib suffix s st) (\<lambda>e st'. st'\<lparr>n_printed := n_printed st' @ [ParseFailure s e],
                   parsed_times := parsed_times st' @ [PNaT]\<rparr>) = Done st' \<and>
     parsed_times st' = parsed_times st @ [v] \<and> via_zone lib suffix s v"
  by (auto simp: try_except_def zone_branch_def via_zone_def Let_def split: sum.splits)

lemma element_iteration_Done:
  "\<exists>st' v. element_iteration lib st cell = Done st' \<and>
     parsed_times st' = parsed_times st @ [v] \<and> normalized lib cell v"
proof (cases cell)
  case None
  then show ?thesis
    by (simp add: element_iteration_def try_except_def parse_element_def normalized_def)
next
  case (Some raw)
  show ?thesis
  proof (cases "raw = []")
    case True
    with Some show ?thesis
      by (simp add: element_iteration_def try_except_def parse_element_def normalized_def)
  next
    case False
    show ?thesis
    proof (cases "contains ''EDT'' (strip raw)")
      case True
      with Some False zone_branch_Done [of lib "'' EDT''" "strip raw" st] show ?thesis
        by (simp add: element_iteration_def parse_element_def normalized_def Let_def)
    next
      case noedt: False
      show ?thesis
      proof (cases "contains ''EST'' (strip raw)")
        case True
        with Some False noedt zone_branch_Done [of lib "'' EST''" "strip raw" st] show ?thesis
          by (simp add: element_iteration_def parse_element_def normalized_def Let_def)
      next
        case noest: False
        with Some False noedt show ?thesis
          by (auto simp: element_iteration_def parse_element_def normalized_def Let_def
              try_except_def split: sum.splits)
      qed
    qed
  qed
qed

lemma elements_loop_Done:
  "\<exists>st' vs. for_each (element_iteration lib) st series = Done st' \<and>
     parsed_times st' = parsed_times st @ vs \<and> list_all2 (normalized lib) series vs"
proof (induction series arbitrary: st)
  case Nil
  show ?case by simp
next
  case (Cons cell series)
  obtain st1 v where one: "element_iteration lib st cell = Done st1"
    "parsed_times st1 = parsed_times st @ [v]" "normalized lib cell v"
    using element_iteration_Done by blast
  obtain st2 vs where rest: "for_each (element_iteration lib) st1 series = Done st2"
    "parsed_times st2 = parsed_times st1 @ vs" "list_all2 (normalized lib) series vs"
    using Cons.IH by blast
  show ?case
    using one rest
    by (intro exI [of _ st2] exI [of _ "v # vs"]) simp
qed

lemma zone_value_eastern:
  assumes "\<forall>v w. localize_eastern lib v = Inr w \<longrightarrow> eastern_or_missing w"
    and "has_zone_abbreviation cell" and "normalized lib cell v"
  shows "eastern_or_missing v"
  using assms
  by (auto simp: has_zone_abbreviation_def normalized_def via_zone_def eastern_or_missing_def
      split: option.splits if_splits sum.splits)

section \<open>Claims\<close>

text \<open>
  C1. For every stretch of a symbol's fill sequence that the matcher enters flat
  (position 0) and leaves flat, in particular for every entry opened from flat whose open
  quantity reaches zero again, the quantities of the trades emitted during the stretch add
  up to the quantities of its Buy fills.
\<close>

theorem closed_entry_quantities:
  assumes flat_before: "position (state_of (match_rows ticker orders initial_state pre)) = 0"
    and flat_after: "position (state_of (match_rows ticker orders initial_state (pre @ seg))) = 0"
  shows "sum_list (map quantity
           (drop (length (trades (state_of (match_rows ticker orders initial_state pre))))
              (trades (state_of (match_rows ticker orders initial_state (pre @ seg)))))) =
         sum_list (map Filled (filter (\<lambda>r. Side r = ''Buy'') seg))"
proof -
  let ?s0 = "state_of (match_rows ticker orders initial_state pre)"
  let ?s1 = "state_of (match_rows ticker orders initial_state (pre @ seg))"
  have run: "?s1 = state_of (match_rows ticker orders ?s0 seg)"
    by (simp add: match_rows_append)
  obtain new where new: "trades ?s1 = trades ?s0 @ new"
    using trades_extend_rows [of ticker orders ?s0 seg] run by auto
  have "position ?s1 + sum_list (map quantity (trades ?s1)) =
        position ?s0 + sum_list (map quantity (trades ?s0)) +
          sum_list (map Filled (filter (\<lambda>r. Side r = ''Buy'') seg))"
    using position_quantity_rows [of ticker orders ?s0 seg] run by simp
  with flat_before flat_after new
  have "sum_list (map quantity new) = sum_list (map Filled (filter (\<lambda>r. Side r = ''Buy'') seg))"
    by simp
  with new show ?thesis by simp
qed

theorem closed_entry_quantities_witness:
  "position (state_of (match_rows ''ACME'' (example_a @ example_b) initial_state example_a)) = 0 \<and>
   position (state_of (match_rows ''ACME'' (example_a @ example_b) initial_state
      (example_a @ example_b))) = 0 \<and>
   sum_list (map quantity
      (drop (length (trades (state_of (match_rows ''ACME'' (example_a @ example_b) initial_state
          example_a))))
        (trades (state_of (match_rows ''ACME'' (example_a @ example_b) initial_state
          (example_a @ example_b)))))) = 1000"
proof -
  have h1: "position (state_of (match_rows ''ACME'' (example_a @ example_b) initial_state
      example_a)) = 0"
    by code_simp
  have h2: "position (state_of (match_rows ''ACME'' (example_a @ example_b) initial_state
      (example_a @ example_b))) = 0"
    by code_simp
  have h3: "sum_list (map Filled (filter (\<lambda>r. Side r = ''Buy'') example_b)) = 1000"
    by (simp add: example_b_def fill_def)
  show ?thesis
    using closed_entry_quantities [OF h1 h2] h1 h2 h3 by simp
qed

text \<open>
  C2 fails on the code. After example B and a later round trip, the first trade keeps its
  provisional scale number 1/3 and the sell that closes the position as its second leg is
  recorded as 1/1, Full Exit: the count of earlier legs compares the trade's formatted
  entry time with the timestamp, finds none, and the patch of earlier denominators never
  applies.
\<close>

theorem scale_number_never_rewritten:
  "map (\<lambda>t. (quantity t, scale_number t, position_type t))
     (trades (state_of (match_rows ''ACME'' example_two_entries initial_state
        example_two_entries))) =
   [(400, ''1/3'', ''Scale Out''), (600, ''1/1'', ''Full Exit''), (100, ''1/1'', ''Full Exit'')]"
  by code_simp

text \<open>
  C3. With Buy fills of non-negative quantity, the position is never negative after any
  prefix of the fill sequence. A Sell that arrives at position 0 leaves the state as it is
  and emits nothing. A Sell against an open position never makes it negative: the emitted
  trade has quantity min(fill quantity, position), and the position goes down by exactly
  that (or the fill is skipped, when the average cost is zero).
\<close>

theorem sell_never_goes_short:
  assumes buys: "\<forall>r\<in>set rows. Side r = ''Buy'' \<longrightarrow> 0 \<le> Filled r"
    and sell: "Side r = ''Sell''"
  shows "(\<forall>n. 0 \<le> position (state_of (match_rows ticker orders initial_state (take n rows)))) \<and>
    (position s = 0 \<longrightarrow> process_order ticker orders s r = Done s) \<and>
    (0 < position s \<longrightarrow>
       0 \<le> position (state_of (order_iteration ticker orders s r)) \<and>
       (if avg_cost s = Fl 0
        then trades (state_of (order_iteration ticker orders s r)) = trades s \<and>
             position (state_of (order_iteration ticker orders s r)) = position s
        else \<exists>t. trades (state_of (order_iteration ticker orders s r)) = trades s @ [t] \<and>
               quantity t = min (Filled r) (position s) \<and>
               position (state_of (order_iteration ticker orders s r)) =
                 position s - min (Filled r) (position s)))"
proof (intro conjI allI impI)
  fix n
  have "\<forall>r\<in>set (take n rows). Side r = ''Buy'' \<longrightarrow> 0 \<le> Filled r"
    using buys by (meson in_set_takeD)
  then show "0 \<le> position (state_of (match_rows ticker orders initial_state (take n rows)))"
    by (intro position_nonneg_rows) (simp_all add: initial_state_def)
next
  assume "position s = 0"
  with sell show "process_order ticker orders s r = Done s"
    by (rule sell_when_flat)
next
  assume "0 < position s"
  with sell show "0 \<le> position (state_of (order_iteration ticker orders s r))"
    using sell_when_open by blast
next
  assume "0 < position s"
  with sell show "if avg_cost s = Fl 0
        then trades (state_of (order_iteration ticker orders s r)) = trades s \<and>
             position (state_of (order_iteration ticker orders s r)) = position s
        else \<exists>t. trades (state_of (order_iteration ticker orders s r)) = trades s @ [t] \<and>
               quantity t = min (Filled r) (position s) \<and>
               position (state_of (order_iteration ticker orders s r)) =
                 position s - min (Filled r) (position s)"
    using sell_when_open by blast
qed

theorem sell_never_goes_short_witness:
  "position (state_of (match_rows ''ACME'' example_b initial_state (take 3 example_b))) = 600 \<and>
   0 \<le> position (state_of (match_rows ''ACME'' example_b initial_state (take 3 example_b))) \<and>
   process_order ''ACME'' example_b initial_state (fill ''Sell'' 400 (Fl 13) 120) = Done initial_state \<and>
   position open_1000 = 1000 \<and>
   position (state_of (order_iteration ''ACME'' example_b open_1000 (fill ''Sell'' 1400 (Fl 13) 120))) = 0 \<and>
   (\<exists>t. trades (state_of (order_iteration ''ACME'' example_b open_1000 (fill ''Sell'' 1400 (Fl 13) 120)))
          = trades open_1000 @ [t] \<and> quantity t = 1000)"
proof -
  have buys: "\<forall>r\<in>set example_b. Side r = ''Buy'' \<longrightarrow> 0 \<le> Filled r"
    by (simp add: example_b_def fill_def)
  have sell: "Side (fill ''Sell'' q p t) = ''Sell''" for q p t
    by (simp add: fill_def)
  have v1: "position (state_of (match_rows ''ACME'' example_b initial_state (take 3 example_b))) = 600"
    by code_simp
  have v2: "position initial_state = 0"
    by (simp add: initial_state_def)
  have "map (\<lambda>s. (position s, avg_cost s)) [open_1000] = [(1000, Fl 11)]"
    by code_simp
  then have v3: "position open_1000 = 1000" "avg_cost open_1000 \<noteq> Fl 0"
    by simp_all
  have v4: "Filled (fill ''Sell'' 1400 (Fl 13) 120) = 1400"
    by (simp add: fill_def)
  show ?thesis
    using sell_never_goes_short [where rows = example_b and r = "fill ''Sell'' 400 (Fl 13) 120"
        and ticker = "''ACME''" and orders = example_b and s = initial_state, OF buys sell]
      sell_never_goes_short [where rows = example_b and r = "fill ''Sell'' 1400 (Fl 13) 120"
        and ticker = "''ACME''" and orders = example_b and s = open_1000, OF buys sell]
      v1 v2 v3 v4
    by auto
qed

text \<open>
  C4 (as amended). From a flat matcher, after one or more Buy fills (positive quantities,
  prices present) followed by any Sell fills that leave the position open, avg_cost is the
  quantity-weighted mean price of those Buy fills; for two buys that is
  (q1*p1+q2*p2)/(q1+q2). A Sell never changes avg_cost while the position stays open. A
  Buy into an open position of quantity Q at average cost a gives (Q*a + q*p)/(Q+q): after a
  partial Sell the earlier buys weigh in with the remaining quantity only.
\<close>

theorem avg_cost_weighted_mean:
  assumes flat: "position s = 0"
    and buys: "\<forall>r\<in>set (b # buys). Side r = ''Buy'' \<and> 0 < Filled r \<and> Avg_Price r \<noteq> NaN"
    and sells: "\<forall>r\<in>set sells. Side r = ''Sell''"
    and still_open: "0 < position (state_of (match_rows ticker orders s ((b # buys) @ sells)))"
  shows "avg_cost (state_of (match_rows ticker orders s ((b # buys) @ sells))) =
           Fl (weighted_mean_price (b # buys)) \<and>
         (Side x = ''Sell'' \<and> 0 < position (state_of (order_iteration ticker orders s' x)) \<longrightarrow>
            avg_cost (state_of (order_iteration ticker orders s' x)) = avg_cost s') \<and>
         (Side x = ''Buy'' \<and> 0 < position s' \<and> 0 < Filled x \<and> avg_cost s' = Fl a \<and>
          Avg_Price x = Fl p \<longrightarrow>
            avg_cost (state_of (order_iteration ticker orders s' x)) =
              Fl ((of_int (position s') * a + of_int (Filled x) * p) /
                  of_int (position s' + Filled x)))"
proof (intro conjI impI)
  let ?s1 = "state_of (order_iteration ticker orders s b)"
  let ?s2 = "state_of (match_rows ticker orders ?s1 buys)"
  obtain p where p: "Avg_Price b = Fl p"
    using buys by (cases "Avg_Price b") auto
  have b: "Side b = ''Buy''" "0 < Filled b"
    using buys by auto
  have first: "position ?s1 = Filled b" "avg_cost ?s1 = Fl p"
    using buy_from_flat [OF b(1) flat] p by auto
  have rest: "\<forall>r\<in>set buys. Side r = ''Buy'' \<and> 0 < Filled r \<and> Avg_Price r \<noteq> NaN"
    using buys by simp
  have pos1: "0 < position ?s1"
    using first b by simp
  have "avg_cost ?s2 = Fl ((of_int (position ?s1) * p +
            (\<Sum>r\<leftarrow>buys. of_int (Filled r) * value_of (Avg_Price r))) /
          of_int (position ?s1 + (\<Sum>r\<leftarrow>buys. Filled r)))"
    using buys_into_open [OF pos1 first(2) rest] by simp
  then have mean: "avg_cost ?s2 = Fl (weighted_mean_price (b # buys))"
    using first p by (simp add: weighted_mean_price_def value_of_def)
  have run: "state_of (match_rows ticker orders s ((b # buys) @ sells)) =
      state_of (match_rows ticker orders ?s2 sells)"
    by (simp add: match_rows_Cons match_rows_append)
  have "avg_cost (state_of (match_rows ticker orders ?s2 sells)) = avg_cost ?s2"
    using sells_keep_avg_cost [OF sells] still_open run by simp
  with mean run
  show "avg_cost (state_of (match_rows ticker orders s ((b # buys) @ sells))) =
      Fl (weighted_mean_price (b # buys))"
    by simp
next
  assume "Side x = ''Sell'' \<and> 0 < position (state_of (order_iteration ticker orders s' x))"
  then show "avg_cost (state_of (order_iteration ticker orders s' x)) = avg_cost s'"
    using sell_keeps_avg_cost by blast
next
  assume "Side x = ''Buy'' \<and> 0 < position s' \<and> 0 < Filled x \<and> avg_cost s' = Fl a \<and>
    Avg_Price x = Fl p"
  then show "avg_cost (state_of (order_iteration ticker orders s' x)) =
      Fl ((of_int (position s') * a + of_int (Filled x) * p) / of_int (position s' + Filled x))"
    using buy_into_open by blast
qed

theorem avg_cost_weighted_mean_witness:
  "position (state_of (match_rows ''ACME'' example_b initial_state (take 3 example_b))) = 600 \<and>
   avg_cost (state_of (match_rows ''ACME'' example_b initial_state (take 3 example_b))) = Fl 11 \<and>
   (500 * 10 + 500 * 12) / (500 + 500) = (11 :: rat) \<and>
   avg_cost (state_of (order_iteration ''ACME'' example_b open_1000 (fill ''Sell'' 400 (Fl 13) 120))) =
     avg_cost open_1000 \<and>
   avg_cost (state_of (order_iteration ''ACME'' example_b open_1000 (fill ''Buy'' 1000 (Fl 13) 120))) =
     Fl 12"
proof -
  have split: "take 3 example_b =
      (fill ''Buy'' 500 (Fl 10) 0 # [fill ''Buy'' 500 (Fl 12) 60]) @ [fill ''Sell'' 400 (Fl 13) 120]"
    by (simp add: example_b_def)
  have flat: "position initial_state = 0"
    by (simp add: initial_state_def)
  have buys: "\<forall>r\<in>set (fill ''Buy'' 500 (Fl 10) 0 # [fill ''Buy'' 500 (Fl 12) 60]).
      Side r = ''Buy'' \<and> 0 < Filled r \<and> Avg_Price r \<noteq> NaN"
    by (simp add: fill_def)
  have sells: "\<forall>r\<in>set [fill ''Sell'' 400 (Fl 13) 120]. Side r = ''Sell''"
    by (simp add: fill_def)
  have pos: "position (state_of (match_rows ''ACME'' example_b initial_state (take 3 example_b))) = 600"
    by code_simp
  have still_open: "0 < position (state_of (match_rows ''ACME'' example_b initial_state
      ((fill ''Buy'' 500 (Fl 10) 0 # [fill ''Buy'' 500 (Fl 12) 60]) @ [fill ''Sell'' 400 (Fl 13) 120])))"
    using pos split by simp
  have mean: "weighted_mean_price (fill ''Buy'' 500 (Fl 10) 0 # [fill ''Buy'' 500 (Fl 12) 60]) = 11"
    by (simp add: weighted_mean_price_def value_of_def fill_def)
  have "map (\<lambda>s. (position s, avg_cost s)) [open_1000] = [(1000, Fl 11)]"
    by code_simp
  then have s2: "position open_1000 = 1000" "avg_cost open_1000 = Fl 11"
    by simp_all
  have s1: "0 < position (state_of (order_iteration ''ACME'' example_b open_1000
      (fill ''Sell'' 400 (Fl 13) 120)))"
    by code_simp
  have x: "Side (fill ''Sell'' 400 (Fl 13) 120) = ''Sell''"
    "Side (fill ''Buy'' 1000 (Fl 13) 120) = ''Buy''"
    "Filled (fill ''Buy'' 1000 (Fl 13) 120) = 1000"
    "Avg_Price (fill ''Buy'' 1000 (Fl 13) 120) = Fl 13"
    by (simp_all add: fill_def)
  show ?thesis
    using avg_cost_weighted_mean [OF flat buys sells still_open,
        where x = "fill ''Sell'' 400 (Fl 13) 120" and s' = open_1000]
      avg_cost_weighted_mean [OF flat buys sells still_open,
        where x = "fill ''Buy'' 1000 (Fl 13) 120" and s' = open_1000 and a = 11 and p = 13]
      split pos mean s1 s2 x
    by simp
qed

text \<open>
  C4 as stated fails once a Buy follows a partial Sell: after buying 10 at 1, selling 5
  and buying 5 at 2 the position of 10 is open at avg_cost 3/2, while the mean of the two
  Buy fills weighted by their quantities is 4/3.
\<close>

theorem avg_cost_weighted_mean_counterexample:
  "position (state_of (match_rows ''ACME'' example_rebuy initial_state example_rebuy)) = 10 \<and>
   avg_cost (state_of (match_rows ''ACME'' example_rebuy initial_state example_rebuy)) = Fl (3 / 2) \<and>
   weighted_mean_price (filter (\<lambda>r. Side r = ''Buy'') example_rebuy) = 4 / 3 \<and>
   avg_cost (state_of (match_rows ''ACME'' example_rebuy initial_state example_rebuy)) \<noteq>
     Fl (weighted_mean_price (filter (\<lambda>r. Side r = ''Buy'') example_rebuy))"
proof -
  have "map (\<lambda>s. (position s, avg_cost s))
      [state_of (match_rows ''ACME'' example_rebuy initial_state example_rebuy)] = [(10, Fl (3 / 2))]"
    by code_simp
  then have a: "position (state_of (match_rows ''ACME'' example_rebuy initial_state example_rebuy)) = 10"
    and b: "avg_cost (state_of (match_rows ''ACME'' example_rebuy initial_state example_rebuy)) =
      Fl (3 / 2)"
    by simp_all
  have c: "weighted_mean_price (filter (\<lambda>r. Side r = ''Buy'') example_rebuy) = 4 / 3"
    by (simp add: weighted_mean_price_def value_of_def example_rebuy_def fill_def)
  show ?thesis
    using a b c by simp
qed

text \<open>
  C5 (as amended). For every Sell emitted as a Scale Out, the provisional denominator of
  its scale number is the count, at least 1, of all the Sell fills of the symbol's frame
  whose time is strictly after the entry time, whether they have been consumed or not
  (and 1 when there is no entry time).
\<close>

theorem provisional_denominator:
  assumes "Side r = ''Sell''" and "0 < position s" and "Filled r < position s"
    and "avg_cost s \<noteq> Fl 0"
  shows "\<exists>s' t. process_order ticker orders s r = Done s' \<and> trades s' = trades s @ [t] \<and>
    position_type t = ''Scale Out'' \<and>
    denominator_of (scale_number t) =
      str_nat (case entry_time s of
                 Stamp e \<Rightarrow>
                   max (length (filter (\<lambda>x. Side x = ''Sell'' \<and>
                          (case Filled_Time x of Stamp f \<Rightarrow> instant e < instant f | _ \<Rightarrow> False))
                        orders)) 1
               | _ \<Rightarrow> 1)"
proof -
  obtain s' t where run: "process_order ticker orders s r = Done s'" "trades s' = trades s @ [t]"
    and sc: "scale_number t = scale_str 1 (estimate_total_exits orders (entry_time s))"
    and pt: "position_type t = ''Scale Out''"
    using sell_emits [OF assms(1,2,4), of ticker orders] assms(3) by auto
  have eq: "(\<lambda>x. time_gt (Filled_Time x) e \<and> Side x = ''Sell'') =
      (\<lambda>x. Side x = ''Sell'' \<and> (case Filled_Time x of Stamp f \<Rightarrow> instant e < instant f | _ \<Rightarrow> False))" for e
    by (auto simp: time_gt_def)
  have "denominator_of (scale_number t) =
      str_nat (case entry_time s of
                 Stamp e \<Rightarrow>
                   max (length (filter (\<lambda>x. Side x = ''Sell'' \<and>
                          (case Filled_Time x of Stamp f \<Rightarrow> instant e < instant f | _ \<Rightarrow> False))
                        orders)) 1
               | _ \<Rightarrow> 1)"
    by (cases "entry_time s") (simp_all only: sc denominator_of_scale_str estimate_total_exits_def eq tval.case)
  with run pt show ?thesis by blast
qed

theorem provisional_denominator_witness:
  "position open_10 = 7 \<and> entry_time open_10 = Stamp (stamp_at 0) \<and>
   (\<exists>s' t. process_order ''ACME'' example_three_sells open_10 (fill ''Sell'' 3 (Fl 11) 120) = Done s' \<and>
      trades s' = trades open_10 @ [t] \<and> position_type t = ''Scale Out'' \<and>
      denominator_of (scale_number t) = ''3'')"
proof -
  have "map (\<lambda>s. (position s, avg_cost s, entry_time s)) [open_10] =
      [(7, Fl 10, Stamp (stamp_at 0))]"
    by code_simp
  then have v: "position open_10 = 7" "entry_time open_10 = Stamp (stamp_at 0)"
    and c: "avg_cost open_10 = Fl 10"
    by simp_all
  have h: "Side (fill ''Sell'' 3 (Fl 11) 120) = ''Sell''" "0 < position open_10"
    "Filled (fill ''Sell'' 3 (Fl 11) 120) < position open_10" "avg_cost open_10 \<noteq> Fl 0"
    using v c by (simp_all add: fill_def)
  have n: "str_nat (max (length (filter (\<lambda>x. Side x = ''Sell'' \<and>
      (case Filled_Time x of Stamp f \<Rightarrow> instant (stamp_at 0) < instant f | _ \<Rightarrow> False))
      example_three_sells)) 1) = ''3''"
    by code_simp
  show ?thesis
    using provisional_denominator [OF h, of "''ACME''" example_three_sells] v n by simp
qed

text \<open>
  C5 as stated fails: at the second sell of a buy closed by three sells, the recorded
  denominator is 3 (all three sells follow the entry), while the sells that remain are 2
  counting the current one, or 1 not counting it.
\<close>

theorem provisional_denominator_counterexample:
  "map (\<lambda>t. (position_type t, denominator_of (scale_number t)))
     (trades (state_of (match_rows ''ACME'' example_three_sells initial_state
        example_three_sells))) =
     [(''Scale Out'', ''3''), (''Scale Out'', ''3''), (''Full Exit'', ''1'')] \<and>
   str_nat (remaining_sells_after (drop 2 example_three_sells) (stamp_at 0)) = ''2'' \<and>
   str_nat (remaining_sells_after (drop 3 example_three_sells) (stamp_at 0)) = ''1''"
  by code_simp

text \<open>
  C6 (as amended). For every emitted trade, duration_minutes is the time from the entry
  to the exit fill in whole minutes, the fraction dropped (towards zero): for an exit not
  earlier than the entry, the seconds between them divided by 60, rounded down. If either
  timestamp is missing, duration_minutes is 0, a warning is printed and nothing is raised.
\<close>

theorem duration_truncated_minutes:
  assumes "Side r = ''Sell''" and "0 < position s" and "avg_cost s \<noteq> Fl 0"
  shows "\<exists>s' t. process_order ticker orders s r = Done s' \<and> trades s' = trades s @ [t] \<and>
    (\<forall>e f. entry_time s = Stamp e \<and> Filled_Time r = Stamp f \<longrightarrow>
       duration_minutes t = sgn (instant f - instant e) * (\<bar>instant f - instant e\<bar> div 60) \<and>
       (instant e \<le> instant f \<longrightarrow> duration_minutes t = (instant f - instant e) div 60)) \<and>
    (isna (entry_time s) \<or> isna (Filled_Time r) \<longrightarrow>
       duration_minutes t = 0 \<and> DurationWarning ticker \<in> set (printed s'))"
proof -
  obtain s' t where run: "process_order ticker orders s r = Done s'" "trades s' = trades s @ [t]"
    and dur: "duration_minutes t =
       (case duration_of (entry_time s) (Filled_Time r) of Some d \<Rightarrow> d | None \<Rightarrow> 0)"
    and out: "printed s' = printed s @
       (case duration_of (entry_time s) (Filled_Time r) of Some d \<Rightarrow> [] | None \<Rightarrow> [DurationWarning ticker]) @
       [ExitMsg ticker (quantity t) (Avg_Price r) (pnl_dollar t)]"
    using sell_emits [OF assms, of ticker orders] by auto
  have trunc: "py_int_div60 d = sgn d * (\<bar>d\<bar> div 60)" for d
    by (simp add: py_int_div60_def sgn_if)
  have a: "\<forall>e f. entry_time s = Stamp e \<and> Filled_Time r = Stamp f \<longrightarrow>
       duration_minutes t = sgn (instant f - instant e) * (\<bar>instant f - instant e\<bar> div 60) \<and>
       (instant e \<le> instant f \<longrightarrow> duration_minutes t = (instant f - instant e) div 60)"
  proof (intro allI impI conjI)
    fix e f
    assume ef: "entry_time s = Stamp e \<and> Filled_Time r = Stamp f"
    then have d: "duration_minutes t = py_int_div60 (instant f - instant e)"
      using dur by (simp add: duration_of_def total_seconds_def)
    show "duration_minutes t = sgn (instant f - instant e) * (\<bar>instant f - instant e\<bar> div 60)"
      using d by (simp only: trunc)
    assume "instant e \<le> instant f"
    then show "duration_minutes t = (instant f - instant e) div 60"
      using d by (simp add: py_int_div60_def)
  qed
  have b: "isna (entry_time s) \<or> isna (Filled_Time r) \<longrightarrow>
       duration_minutes t = 0 \<and> DurationWarning ticker \<in> set (printed s')"
    using dur out by (auto simp: duration_of_def isna_def split: tval.splits)
  from run a b show ?thesis by blast
qed

theorem duration_truncated_minutes_witness:
  "\<exists>s' t. process_order ''ACME'' example_100s
       (state_of (match_rows ''ACME'' example_100s initial_state (take 1 example_100s)))
       (fill ''Sell'' 10 (Fl 11) 100) = Done s' \<and>
     duration_minutes t = 1 \<and> trades s' = [t]"
proof -
  let ?s = "state_of (match_rows ''ACME'' example_100s initial_state (take 1 example_100s))"
  have "map (\<lambda>s. (position s, avg_cost s, entry_time s, trades s)) [?s] =
      [(10, Fl 10, Stamp (stamp_at 0), [])]"
    by code_simp
  then have h: "Side (fill ''Sell'' 10 (Fl 11) 100) = ''Sell''" "0 < position ?s" "avg_cost ?s \<noteq> Fl 0"
    and v: "entry_time ?s = Stamp (stamp_at 0)"
      "Filled_Time (fill ''Sell'' 10 (Fl 11) 100) = Stamp (stamp_at 100)" "trades ?s = []"
    by (simp_all add: fill_def)
  have d: "instant (stamp_at 100) - instant (stamp_at 0) = 100"
    by (simp add: stamp_at_def)
  show ?thesis
    using duration_truncated_minutes [OF h, of "''ACME''" example_100s] v d by auto
qed

text \<open>
  C6 as stated fails: a round trip of 100 seconds is recorded with a duration of 1 minute,
  while 100/60 rounded to the nearest integer is 2.
\<close>

theorem duration_truncated_minutes_counterexample:
  "map duration_minutes
     (trades (state_of (match_rows ''ACME'' example_100s initial_state example_100s))) = [1] \<and>
   spec_duration_minutes (instant (stamp_at 100) - instant (stamp_at 0)) = 2"
proof -
  have a: "map duration_minutes
     (trades (state_of (match_rows ''ACME'' example_100s initial_state example_100s))) = [1]"
    by code_simp
  have b: "spec_duration_minutes (instant (stamp_at 100) - instant (stamp_at 0)) = 2"
    by code_simp
  show ?thesis using a b by simp
qed

text \<open>
  C7 (as amended). If avg_cost is zero when a Sell is applied against an open position,
  that Sell fill is skipped: the division for the percentage raises, the iteration catches
  the exception and prints it, no trade is emitted, position, avg_cost and entry time stay
  as they were, and the loop goes on with the next fill and runs to its end. If avg_cost
  is missing (\<^verbatim>\<open>nan\<close>) the Sell is never skipped: nothing raises, and a trade of
  min(fill quantity, position) shares is emitted whose entry_price, pnl_dollar and
  pnl_percent are \<^verbatim>\<open>nan\<close>.
\<close>

theorem zero_avg_cost_sell_skipped:
  assumes "Side r = ''Sell''" and "0 < position s"
  shows "(avg_cost s = Fl 0 \<longrightarrow>
      (\<exists>s'. order_iteration ticker orders s r = Done s' \<and>
         trades s' = trades s \<and> position s' = position s \<and> avg_cost s' = avg_cost s \<and>
         entry_time s' = entry_time s \<and>
         last (printed s') = OrderError ticker ZeroDivisionError \<and>
         match_rows ticker orders s (r # rest) = match_rows ticker orders s' rest \<and>
         (\<exists>final. match_rows ticker orders s (r # rest) = Done final))) \<and>
    (avg_cost s = NaN \<longrightarrow>
      (\<exists>s' t. process_order ticker orders s r = Done s' \<and> trades s' = trades s @ [t] \<and>
         quantity t = min (Filled r) (position s) \<and> exit_price t = Avg_Price r \<and>
         entry_price t = NotANumber \<and> pnl_dollar t = NotANumber \<and>
         pnl_percent t = NotANumber))"
proof (intro conjI impI)
  assume zero: "avg_cost s = Fl 0"
  obtain s1 where s1: "process_order ticker orders s r = Raised ZeroDivisionError s1"
    "trades s1 = trades s" "position s1 = position s" "avg_cost s1 = avg_cost s"
    "entry_time s1 = entry_time s"
    using sell_at_zero_cost [OF assms zero] by blast
  let ?s' = "s1\<lparr>printed := printed s1 @ [OrderError ticker ZeroDivisionError]\<rparr>"
  have it: "order_iteration ticker orders s r = Done ?s'"
    by (simp add: order_iteration_def try_except_def s1(1))
  then have next_row: "match_rows ticker orders s (r # rest) = match_rows ticker orders ?s' rest"
    by (simp add: match_rows_Cons state_of_def)
  have "\<exists>final. match_rows ticker orders s (r # rest) = Done final"
    using match_rows_Done by blast
  with it next_row s1
  show "\<exists>s'. order_iteration ticker orders s r = Done s' \<and>
         trades s' = trades s \<and> position s' = position s \<and> avg_cost s' = avg_cost s \<and>
         entry_time s' = entry_time s \<and>
         last (printed s') = OrderError ticker ZeroDivisionError \<and>
         match_rows ticker orders s (r # rest) = match_rows ticker orders s' rest \<and>
         (\<exists>final. match_rows ticker orders s (r # rest) = Done final)"
    by (intro exI [of _ ?s']) simp
next
  assume "avg_cost s = NaN"
  then show "\<exists>s' t. process_order ticker orders s r = Done s' \<and> trades s' = trades s @ [t] \<and>
         quantity t = min (Filled r) (position s) \<and> exit_price t = Avg_Price r \<and>
         entry_price t = NotANumber \<and> pnl_dollar t = NotANumber \<and>
         pnl_percent t = NotANumber"
    using sell_at_nan_cost [OF assms] by blast
qed

theorem zero_avg_cost_sell_skipped_witness:
  "(\<exists>s'. order_iteration ''ACME'' example_zero open_zero (fill ''Sell'' 10 (Fl 5) 60) = Done s' \<and>
      trades s' = [] \<and> position s' = 10 \<and>
      match_rows ''ACME'' example_zero open_zero (fill ''Sell'' 10 (Fl 5) 60 # example_b) =
        match_rows ''ACME'' example_zero s' example_b) \<and>
   (\<exists>s' t. process_order ''ACME'' example_nan open_nan (fill ''Sell'' 10 (Fl 5) 60) = Done s' \<and>
      trades s' = [t] \<and> quantity t = 10 \<and> exit_price t = Fl 5 \<and>
      entry_price t = NotANumber \<and> pnl_dollar t = NotANumber \<and> pnl_percent t = NotANumber)"
proof -
  have "map (\<lambda>s. (position s, avg_cost s, trades s)) [open_zero] = [(10, Fl 0, [])]"
    by code_simp
  then have zero: "0 < position open_zero" "avg_cost open_zero = Fl 0"
    "trades open_zero = []" "position open_zero = 10"
    by simp_all
  have "map (\<lambda>s. (position s, avg_cost s, trades s)) [open_nan] = [(10, NaN, [])]"
    by code_simp
  then have missing: "0 < position open_nan" "avg_cost open_nan = NaN"
    "trades open_nan = []" "position open_nan = 10"
    by simp_all
  have sell: "Side (fill ''Sell'' 10 (Fl 5) 60) = ''Sell''"
    "Filled (fill ''Sell'' 10 (Fl 5) 60) = 10" "Avg_Price (fill ''Sell'' 10 (Fl 5) 60) = Fl 5"
    by (simp_all add: fill_def)
  show ?thesis
    using zero_avg_cost_sell_skipped [OF sell(1) zero(1), where ticker = "''ACME''"
        and orders = example_zero and rest = example_b]
      zero_avg_cost_sell_skipped [OF sell(1) missing(1), where ticker = "''ACME''"
        and orders = example_nan]
      zero missing sell
    by auto
qed

text \<open>
  C7 as stated fails for a missing average cost: after a Buy whose price is \<^verbatim>\<open>nan\<close>
  the Sell is not skipped; a trade of 10 shares is emitted with \<^verbatim>\<open>nan\<close> as its entry
  price and profit.
\<close>

theorem zero_avg_cost_sell_skipped_counterexample:
  "avg_cost (state_of (match_rows ''ACME'' example_nan initial_state (take 1 example_nan))) = NaN \<and>
   position (state_of (match_rows ''ACME'' example_nan initial_state (take 1 example_nan))) = 10 \<and>
   map (\<lambda>t. (quantity t, entry_price t, pnl_dollar t, pnl_percent t))
     (trades (state_of (match_rows ''ACME'' example_nan initial_state example_nan))) =
     [(10, NotANumber, NotANumber, NotANumber)]"
proof -
  have "map (\<lambda>s. (position s, avg_cost s))
      [state_of (match_rows ''ACME'' example_nan initial_state (take 1 example_nan))] = [(10, NaN)]"
    by code_simp
  moreover have "map (\<lambda>t. (quantity t, entry_price t, pnl_dollar t, pnl_percent t))
     (trades (state_of (match_rows ''ACME'' example_nan initial_state example_nan))) =
     [(10, NotANumber, NotANumber, NotANumber)]"
    by code_simp
  ultimately show ?thesis by simp
qed

text \<open>
  C8 (as amended). The timestamp normalizer never raises: for every series, whatever the
  library calls return or raise, it returns one value per element. An empty or missing
  element yields the missing-value marker. A string that contains EDT or EST is parsed,
  with the abbreviation removed, as month/day/year hour:minute:second and localized to US
  Eastern; it yields an Eastern-zone instant, or the marker when the parse or the
  localization fails. Any other string yields what the generic parse returns, which need
  not be aware of any zone, or the marker when it fails.
\<close>

theorem normalizer_never_raises:
  assumes zone: "\<forall>v w. localize_eastern lib v = Inr w \<longrightarrow> eastern_or_missing w"
  shows "\<exists>vs out. parse_datetime_robust lib series = Inr (vs, out) \<and>
    list_all2 (normalized lib) series vs \<and>
    (\<forall>i<length series. has_zone_abbreviation (series ! i) \<longrightarrow> eastern_or_missing (vs ! i))"
proof -
  obtain st' vs where run: "for_each (element_iteration lib) \<lparr>parsed_times = [], n_printed = []\<rparr> series =
      Done st'" and vs: "parsed_times st' = vs"
    and each: "list_all2 (normalized lib) series vs"
    using elements_loop_Done [of lib "\<lparr>parsed_times = [], n_printed = []\<rparr>" series] by auto
  have ret: "parse_datetime_robust lib series = Inr (vs, n_printed st')"
    using run vs by (simp add: parse_datetime_robust_def)
  have "\<forall>i<length series. has_zone_abbreviation (series ! i) \<longrightarrow> eastern_or_missing (vs ! i)"
    using each zone_value_eastern [OF zone] by (auto simp: list_all2_conv_all_nth)
  with ret each show ?thesis by blast
qed

theorem normalizer_never_raises_witness:
  "parse_datetime_robust example_library [Some ''09/15/2025 08:27:26 EDT'', Some '''', Some ''soon''] =
     Inr ([PAware example_moment ''US/Eastern'', PNaT, PNaT], []) \<and>
   has_zone_abbreviation (Some ''09/15/2025 08:27:26 EDT'') \<and>
   eastern_or_missing (PAware example_moment ''US/Eastern'') \<and>
   list_all2 (normalized example_library) [Some ''09/15/2025 08:27:26 EDT'', Some '''', Some ''soon'']
     [PAware example_moment ''US/Eastern'', PNaT, PNaT]"
proof -
  have zone: "\<forall>v w. localize_eastern example_library v = Inr w \<longrightarrow> eastern_or_missing w"
    by (auto simp: example_library_def eastern_or_missing_def split: pdvalue.splits)
  have run: "parse_datetime_robust example_library [Some ''09/15/2025 08:27:26 EDT'', Some '''', Some ''soon''] =
     Inr ([PAware example_moment ''US/Eastern'', PNaT, PNaT], [])"
    by code_simp
  have z: "has_zone_abbreviation (Some ''09/15/2025 08:27:26 EDT'')"
    by code_simp
  show ?thesis
    using normalizer_never_raises [OF zone, of "[Some ''09/15/2025 08:27:26 EDT'', Some '''', Some ''soon'']"]
      run z
    by auto
qed

text \<open>
  C8 as stated fails for a string without a zone abbreviation that the generic parse can
  read: \<^verbatim>\<open>2025-09-15 08:27:26\<close> comes back as the timezone-naive timestamp the library
  returns for it, which is neither an Eastern-zone instant nor the missing-value marker.
\<close>

theorem normalizer_never_raises_counterexample:
  "parse_datetime_robust example_library [Some ''2025-09-15 08:27:26''] =
     Inr ([PNaive example_moment], []) \<and>
   \<not> eastern_or_missing (PNaive example_moment)"
proof -
  have "parse_datetime_robust example_library [Some ''2025-09-15 08:27:26''] =
     Inr ([PNaive example_moment], [])"
    by code_simp
  then show ?thesis
    by (simp add: eastern_or_missing_def)
qed

text \<open>
  C9. No exception escapes the matcher. Whatever the per-symbol method does, the loop over
  the symbols returns, and what it returns is, symbol by symbol in order of first
  appearance, the trades of the symbols whose processing did not raise: a symbol whose
  processing raises is reported, adds nothing, and the loop goes on with the symbols after
  it. With the class's own method, \<^verbatim>\<open>match_trades_with_scaling\<close> returns the trades
  the per-symbol matcher ends with; \<^verbatim>\<open>_match_symbol_trades\<close> returns; every iteration
  over a row ends normally; and a row whose processing raises emits no trade and the loop
  goes on with the rows after it.
\<close>

theorem no_exception_escapes:
  "(\<exists>ts self' out. match_symbols match_symbol self = Inr (ts, self', out) \<and>
      ts = (case raw_orders self of None \<Rightarrow> []
            | Some raw \<Rightarrow>
                concat (map (symbol_contribution match_symbol raw) (unique (map Symbol raw))))) \<and>
   (\<forall>e. symbol_rows raw sy \<noteq> [] \<and> match_symbol sy (symbol_rows raw sy) = Inl e \<longrightarrow>
      symbol_contribution match_symbol raw sy = [] \<and>
      symbol_iteration match_symbol raw d sy =
        Done (d\<lparr>all_printed := all_printed d @
          [Processing sy (length (symbol_rows raw sy)), SymbolError sy e]\<rparr>) \<and>
      for_each (symbol_iteration match_symbol raw) d (sy # syms) =
        for_each (symbol_iteration match_symbol raw)
          (d\<lparr>all_printed := all_printed d @
            [Processing sy (length (symbol_rows raw sy)), SymbolError sy e]\<rparr>) syms) \<and>
   (\<exists>ts self' out. match_trades_with_scaling self = Inr (ts, self', out) \<and>
      ts = (case raw_orders self of None \<Rightarrow> []
            | Some raw \<Rightarrow> concat (map (symbol_trades_of raw) (unique (map Symbol raw))))) \<and>
   (\<exists>ts out. match_symbol_trades ticker orders = Inr (ts, out)) \<and>
   (\<exists>s'. order_iteration ticker orders s r = Done s') \<and>
   (\<forall>e s1. process_order ticker orders s r = Raised e s1 \<longrightarrow>
      trades s1 = trades s \<and>
      match_rows ticker orders s (r # rest) =
        match_rows ticker orders (s1\<lparr>printed := printed s1 @ [OrderError ticker e]\<rparr>) rest)"
proof (intro conjI allI impI)
  show "\<exists>ts self' out. match_symbols match_symbol self = Inr (ts, self', out) \<and>
      ts = (case raw_orders self of None \<Rightarrow> []
            | Some raw \<Rightarrow>
                concat (map (symbol_contribution match_symbol raw) (unique (map Symbol raw))))"
    using match_symbols_returns [of match_symbol self] by blast
next
  fix e
  assume fails: "symbol_rows raw sy \<noteq> [] \<and> match_symbol sy (symbol_rows raw sy) = Inl e"
  then show "symbol_contribution match_symbol raw sy = []"
    by (simp add: symbol_contribution_def)
  show skipped: "symbol_iteration match_symbol raw d sy =
        Done (d\<lparr>all_printed := all_printed d @
          [Processing sy (length (symbol_rows raw sy)), SymbolError sy e]\<rparr>)"
    using fails symbol_iteration_raised by blast
  show "for_each (symbol_iteration match_symbol raw) d (sy # syms) =
        for_each (symbol_iteration match_symbol raw)
          (d\<lparr>all_printed := all_printed d @
            [Processing sy (length (symbol_rows raw sy)), SymbolError sy e]\<rparr>) syms"
    by (simp add: skipped)
next
  have "\<exists>self' out. match_trades_with_scaling self =
     Inr (case raw_orders self of
            None \<Rightarrow> []
          | Some raw \<Rightarrow> concat (map (symbol_trades_of raw) (unique (map Symbol raw))),
          self', out)"
    using match_symbols_returns [of match_symbol_trades self]
    by (cases "raw_orders self")
       (simp_all add: match_trades_with_scaling_def contribution_of_matcher)
  then show "\<exists>ts self' out. match_trades_with_scaling self = Inr (ts, self', out) \<and>
      ts = (case raw_orders self of None \<Rightarrow> []
            | Some raw \<Rightarrow> concat (map (symbol_trades_of raw) (unique (map Symbol raw))))"
    by blast
next
  show "\<exists>ts out. match_symbol_trades ticker orders = Inr (ts, out)"
    by (simp add: match_symbol_trades_returns)
next
  show "\<exists>s'. order_iteration ticker orders s r = Done s'"
    using order_iteration_Done by blast
next
  fix e s1
  assume raised: "process_order ticker orders s r = Raised e s1"
  then show "trades s1 = trades s"
    by (rule raised_keeps_trades)
  have "order_iteration ticker orders s r = Done (s1\<lparr>printed := printed s1 @ [OrderError ticker e]\<rparr>)"
    using raised by (simp add: order_iteration_def try_except_def)
  then show "match_rows ticker orders s (r # rest) =
      match_rows ticker orders (s1\<lparr>printed := printed s1 @ [OrderError ticker e]\<rparr>) rest"
    by (simp add: match_rows_Cons state_of_def)
qed

theorem no_exception_escapes_witness:
  "failing_for_one ''FAIL'' (symbol_rows two_symbols ''FAIL'') = Inl ValueError \<and>
   length (symbol_rows two_symbols ''FAIL'') = 2 \<and>
   symbol_iteration failing_for_one two_symbols \<lparr>all_trades = [], all_printed = []\<rparr> ''FAIL'' =
     Done \<lparr>all_trades = [], all_printed = [Processing ''FAIL'' 2, SymbolError ''FAIL'' ValueError]\<rparr> \<and>
   (\<exists>ts self' out. match_symbols failing_for_one two_symbol_parser = Inr (ts, self', out) \<and>
      map quantity ts = [400, 600]) \<and>
   process_order ''ACME'' example_zero open_zero (fill ''Sell'' 10 (Fl 5) 60) =
     Raised ZeroDivisionError open_zero \<and>
   trades open_zero = [] \<and>
   match_rows ''ACME'' example_zero open_zero (fill ''Sell'' 10 (Fl 5) 60 # example_b) =
     match_rows ''ACME'' example_zero
       (open_zero\<lparr>printed := printed open_zero @ [OrderError ''ACME'' ZeroDivisionError]\<rparr>) example_b \<and>
   (\<exists>ts self' out. match_trades_with_scaling example_parser = Inr (ts, self', out) \<and>
      map quantity ts = [400, 600])"
proof -
  have rows: "length (symbol_rows two_symbols ''FAIL'') = 2"
    by code_simp
  then have nonempty: "symbol_rows two_symbols ''FAIL'' \<noteq> []"
    by auto
  have fails: "failing_for_one ''FAIL'' (symbol_rows two_symbols ''FAIL'') = Inl ValueError"
    by (simp add: failing_for_one_def)
  have raw2: "raw_orders two_symbol_parser = Some two_symbols"
    by (simp add: two_symbol_parser_def)
  have q2: "map quantity (concat (map (symbol_contribution failing_for_one two_symbols)
      (unique (map Symbol two_symbols)))) = [400, 600]"
    by code_simp
  have raised: "process_order ''ACME'' example_zero open_zero (fill ''Sell'' 10 (Fl 5) 60) =
      Raised ZeroDivisionError open_zero"
    by code_simp
  have v: "trades open_zero = []"
    by code_simp
  have raw: "raw_orders example_parser = Some (example_zero @ example_b)"
    by (simp add: example_parser_def)
  have q: "map quantity (concat (map (symbol_trades_of (example_zero @ example_b))
      (unique (map Symbol (example_zero @ example_b))))) = [400, 600]"
    by code_simp
  note batch = no_exception_escapes [where match_symbol = failing_for_one
      and self = two_symbol_parser and raw = two_symbols and sy = "''FAIL''"
      and d = "\<lparr>all_trades = [], all_printed = []\<rparr>"]
  note single = no_exception_escapes [where self = example_parser and ticker = "''ACME''"
      and orders = example_zero and s = open_zero and r = "fill ''Sell'' 10 (Fl 5) 60"
      and rest = example_b]
  have "symbol_iteration failing_for_one two_symbols \<lparr>all_trades = [], all_printed = []\<rparr> ''FAIL'' =
     Done (\<lparr>all_trades = [], all_printed = []\<rparr>\<lparr>all_printed :=
       all_printed \<lparr>all_trades = [], all_printed = []\<rparr> @
       [Processing ''FAIL'' (length (symbol_rows two_symbols ''FAIL'')),
        SymbolError ''FAIL'' ValueError]\<rparr>)"
    using batch [THEN conjunct2, THEN conjunct1] nonempty fails by blast
  then have a: "symbol_iteration failing_for_one two_symbols \<lparr>all_trades = [], all_printed = []\<rparr> ''FAIL'' =
     Done \<lparr>all_trades = [], all_printed = [Processing ''FAIL'' 2, SymbolError ''FAIL'' ValueError]\<rparr>"
    by (simp add: rows)
  obtain ts2 self2 out2 where
    "match_symbols failing_for_one two_symbol_parser = Inr (ts2, self2, out2)"
    "ts2 = (case raw_orders two_symbol_parser of None \<Rightarrow> []
            | Some raw \<Rightarrow>
                concat (map (symbol_contribution failing_for_one raw) (unique (map Symbol raw))))"
    using batch [THEN conjunct1] by blast
  then have b: "\<exists>ts self' out. match_symbols failing_for_one two_symbol_parser = Inr (ts, self', out) \<and>
      map quantity ts = [400, 600]"
    using raw2 q2 by simp
  have c: "match_rows ''ACME'' example_zero open_zero (fill ''Sell'' 10 (Fl 5) 60 # example_b) =
     match_rows ''ACME'' example_zero
       (open_zero\<lparr>printed := printed open_zero @ [OrderError ''ACME'' ZeroDivisionError]\<rparr>) example_b"
    using single [THEN conjunct2, THEN conjunct2, THEN conjunct2, THEN conjunct2, THEN conjunct2]
      raised by blast
  obtain ts1 self1 out1 where
    "match_trades_with_scaling example_parser = Inr (ts1, self1, out1)"
    "ts1 = (case raw_orders example_parser of None \<Rightarrow> []
            | Some raw \<Rightarrow> concat (map (symbol_trades_of raw) (unique (map Symbol raw))))"
    using single [THEN conjunct2, THEN conjunct2, THEN conjunct1] by blast
  then have d: "\<exists>ts self' out. match_trades_with_scaling example_parser = Inr (ts, self', out) \<and>
      map quantity ts = [400, 600]"
    using raw q by simp
  show ?thesis
    using fails rows a b raised v c d by blast
qed

text \<open>
  C10. Every emitted trade records as entry_price the average cost rounded to 2 decimal
  places, while pnl_dollar and pnl_percent are roundings of the profit computed from the
  unrounded average cost: of (price - avg_cost) * quantity and of
  (price - avg_cost) / avg_cost * 100 (all three are \<^verbatim>\<open>nan\<close> when the average cost is,
  the two profits also when the price is). So there are inputs where pnl_dollar differs
  from the profit recomputed from the trade's own fields: buying 1 at 10.00 and 2 at 10.01
  and selling 3 at 11.00 records entry_price 10.01 and pnl_dollar 2.98, while
  (11.00 - 10.01) * 3 is 2.97.
\<close>

theorem entry_price_rounded_pnl_unrounded:
  assumes "Side r = ''Sell''" and "0 < position s" and "avg_cost s \<noteq> Fl 0"
  shows "(\<exists>s' t. process_order ticker orders s r = Done s' \<and> trades s' = trades s @ [t] \<and>
      exit_price t = Avg_Price r \<and> quantity t = min (Filled r) (position s) \<and>
      (\<forall>a. avg_cost s = Fl a \<longrightarrow> rounded_to_cents a (entry_price t)) \<and>
      (\<forall>a p. avg_cost s = Fl a \<and> Avg_Price r = Fl p \<longrightarrow>
         rounded_to_cents ((p - a) * of_int (quantity t)) (pnl_dollar t) \<and>
         rounded_to_cents ((p - a) / a * 100) (pnl_percent t)) \<and>
      (avg_cost s = NaN \<longrightarrow> entry_price t = NotANumber) \<and>
      (avg_cost s = NaN \<or> Avg_Price r = NaN \<longrightarrow>
         pnl_dollar t = NotANumber \<and> pnl_percent t = NotANumber)) \<and>
    (\<exists>t\<in>set (trades (state_of (match_rows ''ACME'' example_thirds initial_state example_thirds))).
       \<exists>c. recomputed_pnl_dollar t = Some c \<and> pnl_dollar t \<noteq> c)"
proof
  obtain s' t ratio where run: "process_order ticker orders s r = Done s'"
      "trades s' = trades s @ [t]"
    and ratio: "fdiv (fsub (Avg_Price r) (avg_cost s)) (avg_cost s) = Inr ratio"
    and fields: "exit_price t = Avg_Price r" "quantity t = min (Filled r) (position s)"
      "entry_price t = py_round2 (avg_cost s)"
      "pnl_dollar t = py_round2 (fmul (fsub (Avg_Price r) (avg_cost s))
         (of_pyint (min (Filled r) (position s))))"
      "pnl_percent t = py_round2 (fmul ratio (Fl 100))"
    using sell_emits [OF assms, of ticker orders] by auto
  have entry: "\<forall>a. avg_cost s = Fl a \<longrightarrow> rounded_to_cents a (entry_price t)"
    using fields(3) py_round2_rounded by simp
  have pnl: "\<forall>a p. avg_cost s = Fl a \<and> Avg_Price r = Fl p \<longrightarrow>
         rounded_to_cents ((p - a) * of_int (quantity t)) (pnl_dollar t) \<and>
         rounded_to_cents ((p - a) / a * 100) (pnl_percent t)"
  proof (intro allI impI)
    fix a p
    assume ap: "avg_cost s = Fl a \<and> Avg_Price r = Fl p"
    with assms(3) have "a \<noteq> 0"
      by auto
    with ap ratio have "ratio = Fl ((p - a) / a)"
      by (simp add: fdiv_def)
    then have "pnl_percent t = py_round2 (Fl ((p - a) / a * 100))"
      using fields(5) by simp
    moreover have "pnl_dollar t = py_round2 (Fl ((p - a) * of_int (quantity t)))"
      using fields(2,4) ap by (simp add: of_pyint_def)
    ultimately show "rounded_to_cents ((p - a) * of_int (quantity t)) (pnl_dollar t) \<and>
         rounded_to_cents ((p - a) / a * 100) (pnl_percent t)"
      using py_round2_rounded by simp
  qed
  have nan_entry: "avg_cost s = NaN \<longrightarrow> entry_price t = NotANumber"
    using fields(3) by (simp add: py_round2_def)
  have nan_pnl: "avg_cost s = NaN \<or> Avg_Price r = NaN \<longrightarrow>
         pnl_dollar t = NotANumber \<and> pnl_percent t = NotANumber"
  proof
    assume missing: "avg_cost s = NaN \<or> Avg_Price r = NaN"
    then have diff: "fsub (Avg_Price r) (avg_cost s) = NaN"
      by (cases "Avg_Price r"; cases "avg_cost s") auto
    with ratio assms(3) have "ratio = NaN"
      by (cases "avg_cost s") (auto simp: fdiv_def split: if_splits)
    with diff fields(4,5) show "pnl_dollar t = NotANumber \<and> pnl_percent t = NotANumber"
      by (simp add: py_round2_def)
  qed
  show "\<exists>s' t. process_order ticker orders s r = Done s' \<and> trades s' = trades s @ [t] \<and>
      exit_price t = Avg_Price r \<and> quantity t = min (Filled r) (position s) \<and>
      (\<forall>a. avg_cost s = Fl a \<longrightarrow> rounded_to_cents a (entry_price t)) \<and>
      (\<forall>a p. avg_cost s = Fl a \<and> Avg_Price r = Fl p \<longrightarrow>
         rounded_to_cents ((p - a) * of_int (quantity t)) (pnl_dollar t) \<and>
         rounded_to_cents ((p - a) / a * 100) (pnl_percent t)) \<and>
      (avg_cost s = NaN \<longrightarrow> entry_price t = NotANumber) \<and>
      (avg_cost s = NaN \<or> Avg_Price r = NaN \<longrightarrow>
         pnl_dollar t = NotANumber \<and> pnl_percent t = NotANumber)"
    using run fields(1,2) entry pnl nan_entry nan_pnl by blast
next
  let ?ts = "trades (state_of (match_rows ''ACME'' example_thirds initial_state example_thirds))"
  have "map (\<lambda>t. (pnl_dollar t, recomputed_pnl_dollar t)) ?ts = [(Cents 298, Some (Cents 297))]"
    by code_simp
  then obtain t where "?ts = [t]" "pnl_dollar t = Cents 298"
    "recomputed_pnl_dollar t = Some (Cents 297)"
    by (auto simp: map_eq_Cons_conv)
  then show "\<exists>t\<in>set ?ts. \<exists>c. recomputed_pnl_dollar t = Some c \<and> pnl_dollar t \<noteq> c"
    by simp
qed

theorem entry_price_rounded_pnl_unrounded_witness:
  "avg_cost open_thirds = Fl (1501 / 150) \<and>
   (\<exists>s' t. process_order ''ACME'' example_thirds open_thirds (fill ''Sell'' 3 (Fl 11) 120) = Done s' \<and>
      trades s' = [t] \<and> entry_price t = Cents 1001 \<and> pnl_dollar t = Cents 298 \<and>
      pnl_percent t = Cents 993 \<and>
      rounded_to_cents (1501 / 150) (entry_price t) \<and>
      rounded_to_cents ((11 - 1501 / 150) * 3) (pnl_dollar t) \<and>
      rounded_to_cents ((11 - 1501 / 150) / (1501 / 150) * 100) (pnl_percent t))"
proof -
  have "map (\<lambda>s. (position s, avg_cost s, trades s)) [open_thirds] = [(3, Fl (1501 / 150), [])]"
    by code_simp
  then have v: "position open_thirds = 3" "avg_cost open_thirds = Fl (1501 / 150)"
    "trades open_thirds = []"
    by simp_all
  have h: "Side (fill ''Sell'' 3 (Fl 11) 120) = ''Sell''" "0 < position open_thirds"
    "avg_cost open_thirds \<noteq> Fl 0"
    and f: "Avg_Price (fill ''Sell'' 3 (Fl 11) 120) = Fl 11"
    "Filled (fill ''Sell'' 3 (Fl 11) 120) = 3"
    using v by (simp_all add: fill_def)
  obtain s' t where run:
    "process_order ''ACME'' example_thirds open_thirds (fill ''Sell'' 3 (Fl 11) 120) = Done s'"
    "trades s' = trades open_thirds @ [t]"
    "quantity t = min (Filled (fill ''Sell'' 3 (Fl 11) 120)) (position open_thirds)"
    and entry: "\<forall>a. avg_cost open_thirds = Fl a \<longrightarrow> rounded_to_cents a (entry_price t)"
    and pnl: "\<forall>a p. avg_cost open_thirds = Fl a \<and> Avg_Price (fill ''Sell'' 3 (Fl 11) 120) = Fl p \<longrightarrow>
         rounded_to_cents ((p - a) * of_int (quantity t)) (pnl_dollar t) \<and>
         rounded_to_cents ((p - a) / a * 100) (pnl_percent t)"
    using entry_price_rounded_pnl_unrounded [OF h, where ticker = "''ACME''"
        and orders = example_thirds]
    by blast
  have q: "quantity t = 3"
    using run(3) f(2) v(1) by simp
  have r1: "rounded_to_cents (1501 / 150) (entry_price t)"
    using entry v(2) by blast
  have r2: "rounded_to_cents ((11 - 1501 / 150) * 3) (pnl_dollar t)"
    "rounded_to_cents ((11 - 1501 / 150) / (1501 / 150) * 100) (pnl_percent t)"
    using pnl [rule_format, of "1501 / 150" 11] v(2) f(1) q by simp_all
  have "map (\<lambda>t. (entry_price t, pnl_dollar t, pnl_percent t))
      (trades (state_of (process_order ''ACME'' example_thirds open_thirds
         (fill ''Sell'' 3 (Fl 11) 120)))) =
      [(Cents 1001, Cents 298, Cents 993)]"
    by code_simp
  then have vals: "entry_price t = Cents 1001" "pnl_dollar t = Cents 298" "pnl_percent t = Cents 993"
    using run(1,2) v(3) by (simp_all add: state_of_def)
  show ?thesis
    using run(1,2) v(2,3) vals r1 r2 by auto
qed

end
